theory Spec2Isabelle
  imports Complex_Main "HOL-Library.Word"
begin

section \<open>JavaScript values used by the application\<close>

text \<open>
  A JavaScript string is modelled as a \<^typ>\<open>string\<close>: one \<^typ>\<open>char\<close> per code unit,
  restricted to the code units below 256 (data URLs, base64 text, media types and the
  binary strings of \<^verbatim>\<open>atob\<close> all live there). A value of type
  \<^verbatim>\<open>string | null | undefined\<close> is a \<^typ>\<open>string option\<close>; it is truthy when it is
  present and not the empty string.
\<close>

definition truthy :: "string option \<Rightarrow> bool" where
  "truthy v = (case v of None \<Rightarrow> False | Some s \<Rightarrow> s \<noteq> [])"

text \<open>
  \<^verbatim>\<open>String.prototype.trim\<close> removes white space and line terminators from both ends.
  Below 256 these are the code units 9 to 13, 32 and 160.
\<close>

definition isWhiteSpace :: "char \<Rightarrow> bool" where
  "isWhiteSpace c = ((of_char c :: nat) \<in> {9, 10, 11, 12, 13, 32, 160})"

definition trim :: "string \<Rightarrow> string" where
  "trim s = rev (dropWhile isWhiteSpace (rev (dropWhile isWhiteSpace s)))"

text \<open>
  \<^verbatim>\<open>s.split(sep)\<close> for a one-character separator: the pieces between the occurrences
  of the separator, of which there is always at least one.
\<close>

fun split :: "char \<Rightarrow> string \<Rightarrow> string list" where
  "split sep [] = [[]]"
| "split sep (c # cs) =
     (if c = sep then [] # split sep cs
      else (case split sep cs of
              [] \<Rightarrow> [[c]]
            | p # ps \<Rightarrow> (c # p) # ps))"

text \<open>Indexing an array: \<^verbatim>\<open>arr[i]\<close> is \<^verbatim>\<open>undefined\<close> out of range.\<close>

definition element :: "'a list \<Rightarrow> nat \<Rightarrow> 'a option" where
  "element xs i = (if i < length xs then Some (xs ! i) else None)"

section \<open>Errors and promises\<close>

text \<open>
  The values the code throws or rejects with: \<^verbatim>\<open>new Error(message)\<close>, the
  \<^verbatim>\<open>TypeError\<close> of a property read on \<^verbatim>\<open>undefined\<close>, the
  \<^verbatim>\<open>InvalidCharacterError\<close> of \<^verbatim>\<open>atob\<close>, and the event a \<^verbatim>\<open>FileReader\<close> hands
  to \<^verbatim>\<open>onerror\<close>, which has no \<^verbatim>\<open>message\<close> property. The message text of the two
  engine errors is the engine's own; a representative text stands for it.
\<close>

datatype js_error =
    NewError string
  | TypeError string
  | InvalidCharacterError string
  | ProgressEvent

definition message :: "js_error \<Rightarrow> string option" where
  "message e =
     (case e of
        NewError m \<Rightarrow> Some m
      | TypeError m \<Rightarrow> Some m
      | InvalidCharacterError m \<Rightarrow> Some m
      | ProgressEvent \<Rightarrow> None)"

text \<open>
  An awaited promise resolves, rejects, or is never settled; in the last case the code
  after the \<^verbatim>\<open>await\<close> never runs.
\<close>

datatype 'a promise = Resolved 'a | Rejected js_error | Pending

section \<open>Base64 as the platform reads and writes it\<close>

text \<open>
  The sixty-four characters of the base64 alphabet, in order: A to Z, a to z, 0 to 9,
  plus, slash.
\<close>

definition b64char :: "nat \<Rightarrow> char" where
  "b64char i =
     (if i < 26 then char_of (65 + i)
      else if i < 52 then char_of (97 + (i - 26))
      else if i < 62 then char_of (48 + (i - 52))
      else if i = 62 then CHR ''+''
      else CHR ''/'')"

definition b64value :: "char \<Rightarrow> nat option" where
  "b64value c =
     (let k = (of_char c :: nat) in
      if 65 \<le> k \<and> k \<le> 90 then Some (k - 65)
      else if 97 \<le> k \<and> k \<le> 122 then Some (k - 97 + 26)
      else if 48 \<le> k \<and> k \<le> 57 then Some (k - 48 + 52)
      else if k = 43 then Some 62
      else if k = 47 then Some 63
      else None)"

text \<open>
  Encoding (what \<^verbatim>\<open>FileReader.readAsDataURL\<close> writes after the comma): three bytes
  give four six-bit groups; a last group of one or two bytes gives two or three, and the
  text is padded with \<open>=\<close> to a multiple of four characters.
\<close>

fun sextets :: "8 word list \<Rightarrow> nat list" where
  "sextets (a # b # c # rest) =
     [unat a div 4, (unat a mod 4) * 16 + unat b div 16,
      (unat b mod 16) * 4 + unat c div 64, unat c mod 64] @ sextets rest"
| "sextets [a, b] =
     [unat a div 4, (unat a mod 4) * 16 + unat b div 16, (unat b mod 16) * 4]"
| "sextets [a] = [unat a div 4, (unat a mod 4) * 16]"
| "sextets [] = []"

definition b64encode :: "8 word list \<Rightarrow> string" where
  "b64encode bs =
     map b64char (sextets bs) @ replicate ((3 - length bs mod 3) mod 3) (CHR ''='')"

text \<open>
  Decoding as \<^verbatim>\<open>atob\<close> does it (the forgiving decoder of the platform): ASCII white
  space is removed; when the length is then a multiple of four, one or two trailing
  \<open>=\<close> are removed; a length that leaves remainder one, or a character outside the
  alphabet, is an \<^verbatim>\<open>InvalidCharacterError\<close>; a last group of two or three characters
  gives one or two bytes, its spare low bits dropped. The result is a binary string, one
  character per byte.
\<close>

definition isAsciiWhitespace :: "char \<Rightarrow> bool" where
  "isAsciiWhitespace c = ((of_char c :: nat) \<in> {9, 10, 12, 13, 32})"

definition stripPadding :: "string \<Rightarrow> string" where
  "stripPadding d =
     (if length d mod 4 = 0 then
        (if 2 \<le> length d \<and> last d = CHR ''='' \<and> last (butlast d) = CHR ''=''
         then butlast (butlast d)
         else if d \<noteq> [] \<and> last d = CHR ''='' then butlast d
         else d)
      else d)"

fun octets :: "nat list \<Rightarrow> 8 word list" where
  "octets (p # q # r # s # rest) =
     [of_nat (p * 4 + q div 16), of_nat ((q mod 16) * 16 + r div 4),
      of_nat ((r mod 4) * 64 + s)] @ octets rest"
| "octets [p, q, r] = [of_nat (p * 4 + q div 16), of_nat ((q mod 16) * 16 + r div 4)]"
| "octets [p, q] = [of_nat (p * 4 + q div 16)]"
| "octets [p] = []"
| "octets [] = []"

definition atob :: "string \<Rightarrow> js_error + string" where
  "atob s =
     (let d = stripPadding (filter (\<lambda>c. \<not> isAsciiWhitespace c) s) in
      if length d mod 4 = 1
      then Inl (InvalidCharacterError ''The string to be decoded is not correctly encoded.'')
      else (case those (map b64value d) of
              None \<Rightarrow>
                Inl (InvalidCharacterError ''The string to be decoded is not correctly encoded.'')
            | Some vs \<Rightarrow> Inr (map (\<lambda>w. char_of (unat w)) (octets vs))))"

section \<open>Files\<close>

text \<open>
  A \<^verbatim>\<open>File\<close>: its name, its media type and its bytes. \<^verbatim>\<open>file.size\<close> is the number
  of bytes. \<open>readable\<close> says whether a \<^verbatim>\<open>FileReader\<close> can read it (a file picked
  from disk may have vanished; a file built in memory is always readable).
\<close>

record File =
  fileName :: string
  fileType :: string
  fileBytes :: "8 word list"
  readable :: bool

definition fileSize :: "File \<Rightarrow> nat" where
  "fileSize f = length (fileBytes f)"

text \<open>
  \<^verbatim>\<open>new File([bytes], filename, {type})\<close>: the type is kept in lower case, and
  replaced by the empty string when it has a character outside the range 0x20 to 0x7E.
\<close>

definition asciiLower :: "char \<Rightarrow> char" where
  "asciiLower c =
     (let k = (of_char c :: nat) in if 65 \<le> k \<and> k \<le> 90 then char_of (k + 32) else c)"

definition newFile :: "8 word list \<Rightarrow> string \<Rightarrow> string \<Rightarrow> File" where
  "newFile bytes filename type =
     \<lparr>fileName = filename,
      fileType = (if list_ex (\<lambda>c. (of_char c :: nat) < 32 \<or> 126 < (of_char c :: nat)) type
                  then [] else map asciiLower type),
      fileBytes = bytes,
      readable = True\<rparr>"

text \<open>
  \<^verbatim>\<open>reader.readAsDataURL(file)\<close>: on success \<^verbatim>\<open>reader.result\<close> is the data URL of the
  bytes, with \<^verbatim>\<open>application/octet-stream\<close> for a file of empty type; on failure
  \<^verbatim>\<open>onerror\<close> fires (\<open>None\<close>).
\<close>

definition readAsDataURL :: "File \<Rightarrow> string option" where
  "readAsDataURL f =
     (if readable f
      then Some (''data:''
                 @ (if fileType f = [] then ''application/octet-stream'' else fileType f)
                 @ '';base64,'' @ b64encode (fileBytes f))
      else None)"

text \<open>
  \<^verbatim>\<open>fileToBase64\<close> (App.tsx). \<^verbatim>\<open>[meta, data] = result.split(',')\<close> leaves
  \<^verbatim>\<open>data\<close> undefined when the text has no comma. \<^verbatim>\<open>meta.split(':')[1]\<close> is
  undefined when \<^verbatim>\<open>meta\<close> has no colon; the \<^verbatim>\<open>split\<close> called on it then throws
  inside the \<^verbatim>\<open>onload\<close> handler and the promise is never settled.
\<close>

definition fileToBase64 :: "File \<Rightarrow> (string option \<times> string) promise" where
  "fileToBase64 f =
     (case readAsDataURL f of
        None \<Rightarrow> Rejected ProgressEvent
      | Some result \<Rightarrow>
          (let pieces = split (CHR '','') result;
               data = element pieces 1
           in case element pieces 0 of
                None \<Rightarrow> Pending
              | Some meta \<Rightarrow>
                  (case element (split (CHR '':'') meta) 1 of
                     None \<Rightarrow> Pending
                   | Some t \<Rightarrow>
                       (case element (split (CHR '';'') t) 0 of
                          None \<Rightarrow> Pending
                        | Some mimeType \<Rightarrow> Resolved (data, mimeType)))))"

text \<open>
  The regular expression \<^verbatim>\<open>/:(.*?);/\<close> of \<^verbatim>\<open>dataURLtoFile\<close>. The search starts at
  the leftmost colon; from there the lazy group takes characters other than line
  terminators up to the first semicolon. When a line terminator or the end comes first,
  the search goes on at the next colon. The result is the captured group.
\<close>

fun lazyUntilSemicolon :: "string \<Rightarrow> string option" where
  "lazyUntilSemicolon [] = None"
| "lazyUntilSemicolon (c # cs) =
     (if c = CHR '';'' then Some []
      else if (of_char c :: nat) = 10 \<or> (of_char c :: nat) = 13 then None
      else map_option ((#) c) (lazyUntilSemicolon cs))"

fun mimeMatch :: "string \<Rightarrow> string option" where
  "mimeMatch [] = None"
| "mimeMatch (c # cs) =
     (if c = CHR '':'' then
        (case lazyUntilSemicolon cs of
           Some m \<Rightarrow> Some m
         | None \<Rightarrow> mimeMatch cs)
      else mimeMatch cs)"

text \<open>
  The loop \<^verbatim>\<open>while (n--) { u8arr[n] = bstr.charCodeAt(n); }\<close>: the test reads
  \<^verbatim>\<open>n\<close> and then decrements it, so the body runs with \<^verbatim>\<open>n - 1\<close> down to 0. A
  \<^verbatim>\<open>Uint8Array\<close> element keeps the value modulo 256.
\<close>

primrec fillBytes :: "nat \<Rightarrow> string \<Rightarrow> 8 word list \<Rightarrow> 8 word list" where
  "fillBytes 0 bstr u8arr = u8arr"
| "fillBytes (Suc n) bstr u8arr =
     fillBytes n bstr (u8arr[n := of_nat (of_char (bstr ! n))])"

text \<open>
  \<^verbatim>\<open>dataURLtoFile\<close> (App.tsx). \<^verbatim>\<open>atob(arr[1])\<close> with \<^verbatim>\<open>arr[1]\<close> undefined decodes
  the text \<^verbatim>\<open>undefined\<close>.
\<close>

definition dataURLtoFile :: "string \<Rightarrow> string \<Rightarrow> js_error + File" where
  "dataURLtoFile dataurl filename =
     (let arr = split (CHR '','') dataurl in
      case element arr 0 of
        None \<Rightarrow> Inl (TypeError ''Cannot read properties of undefined'')
      | Some meta \<Rightarrow>
          (case mimeMatch meta of
             None \<Rightarrow> Inl (NewError ''Invalid data URL'')
           | Some mime \<Rightarrow>
               (case atob (case element arr 1 of None \<Rightarrow> ''undefined'' | Some p \<Rightarrow> p) of
                  Inl e \<Rightarrow> Inl e
                | Inr bstr \<Rightarrow>
                    (let n = length bstr;
                         u8arr = fillBytes n bstr (replicate n 0)
                     in Inr (newFile u8arr filename mime)))))"

section \<open>The application state (App.tsx)\<close>

text \<open>
  Modelled from the spec: the enumeration \<^verbatim>\<open>Status\<close> is declared in types.ts, which is
  not among the source files, and the specification names no status; its members here are
  the five that App.tsx refers to.
\<close>

datatype Status = Idle | Masking | Loading | Done | Error

record app =
  status :: Status
  originalImage :: "File option"
  maskImage :: "string option"
  prompt :: string
  generatedImage :: "string option"
  error :: "string option"
  brushSize :: real
  clearCanvasCounter :: nat

definition initialApp :: app where
  "initialApp = \<lparr>status = Idle, originalImage = None, maskImage = None, prompt = [],
     generatedImage = None, error = None, brushSize = 40, clearCanvasCounter = 0\<rparr>"

text \<open>
  \<^verbatim>\<open>handleImageUpload\<close>: the argument is \<^verbatim>\<open>event.target.files?.[0]\<close>.
\<close>

definition handleImageUpload :: "File option \<Rightarrow> app \<Rightarrow> app" where
  "handleImageUpload picked a =
     (case picked of
        None \<Rightarrow> a
      | Some f \<Rightarrow>
          if fileSize f > 4 * 1024 * 1024
          then a\<lparr>error := Some ''Image size should be less than 4MB.''\<rparr>
          else a\<lparr>originalImage := Some f, status := Masking, error := None,
                 generatedImage := None, maskImage := None\<rparr>)"

definition handleMaskChange :: "string \<Rightarrow> app \<Rightarrow> app" where
  "handleMaskChange maskDataUrl a = a\<lparr>maskImage := Some maskDataUrl\<rparr>"

definition handleClearMask :: "app \<Rightarrow> app" where
  "handleClearMask a =
     a\<lparr>clearCanvasCounter := clearCanvasCounter a + 1, maskImage := None\<rparr>"

text \<open>
  \<^verbatim>\<open>handleStartOver\<close>; it also empties the file input of the page, which is not part of
  the state.
\<close>

definition handleStartOver :: "app \<Rightarrow> app" where
  "handleStartOver a =
     a\<lparr>status := Idle, originalImage := None, maskImage := None, prompt := [],
       generatedImage := None, error := None, clearCanvasCounter := 0\<rparr>"

text \<open>
  \<^verbatim>\<open>handleUseResultAsInput\<close>: nothing happens without a generated image; an exception
  of \<^verbatim>\<open>dataURLtoFile\<close> leaves the handler before any state is set.
\<close>

definition handleUseResultAsInput :: "app \<Rightarrow> js_error + app" where
  "handleUseResultAsInput a =
     (case generatedImage a of
        None \<Rightarrow> Inr a
      | Some g \<Rightarrow>
          if g = [] then Inr a
          else (case dataURLtoFile g ''edited-image.png'' of
                  Inl e \<Rightarrow> Inl e
                | Inr newImageFile \<Rightarrow>
                    Inr (a\<lparr>originalImage := Some newImageFile, status := Masking,
                           generatedImage := None, maskImage := None, prompt := [],
                           error := None,
                           clearCanvasCounter := clearCanvasCounter a + 1\<rparr>)))"

definition setPrompt :: "string \<Rightarrow> app \<Rightarrow> app" where
  "setPrompt p a = a\<lparr>prompt := p\<rparr>"

definition setBrushSize :: "real \<Rightarrow> app \<Rightarrow> app" where
  "setBrushSize b a = a\<lparr>brushSize := b\<rparr>"

section \<open>The image-generation service (services/geminiService.ts)\<close>

text \<open>
  The request and response objects of the client library, with the fields the code
  writes and reads; an optional field is an option. \<open>responseText\<close> is the
  \<^verbatim>\<open>text\<close> accessor of the response and \<open>partText\<close> the \<^verbatim>\<open>text\<close> field of a part.
\<close>

datatype Modality = MODALITY_UNSPECIFIED | TEXT | IMAGE | AUDIO

record blob =
  mimeType :: "string option"
  data :: "string option"

record part =
  partText :: "string option"
  inlineData :: "blob option"

record content =
  parts :: "part list option"

record config =
  responseModalities :: "Modality list"

record request =
  model :: string
  contents :: content
  config :: config

record candidate =
  content :: "content option"

record response =
  candidates :: "candidate list option"
  responseText :: "string option"

text \<open>
  The remote endpoint is a parameter: given a request and its own state it answers with
  a response, fails with an error, or never answers. \<open>issued\<close> records, in order, every
  request handed to \<^verbatim>\<open>ai.models.generateContent\<close>.
\<close>

type_synonym 'w endpoint = "request \<Rightarrow> 'w \<Rightarrow> response promise \<times> 'w"

record 'w net =
  remote :: 'w
  issued :: "request list"

definition generateContent :: "'w endpoint \<Rightarrow> request \<Rightarrow> 'w net \<Rightarrow> response promise \<times> 'w net" where
  "generateContent ep req n =
     (case ep req (remote n) of
        (r, w) \<Rightarrow> (r, \<lparr>remote = w, issued = issued n @ [req]\<rparr>))"

text \<open>
  \<^verbatim>\<open>response.candidates?.[0]?.content?.parts?.find((part) => !!part.inlineData)\<close>
\<close>

definition imagePart :: "response \<Rightarrow> part option" where
  "imagePart r =
     (case candidates r of
        None \<Rightarrow> None
      | Some cs \<Rightarrow>
          (case element cs 0 of
             None \<Rightarrow> None
           | Some c \<Rightarrow>
               (case content c of
                  None \<Rightarrow> None
                | Some ct \<Rightarrow>
                    (case parts ct of
                       None \<Rightarrow> None
                     | Some ps \<Rightarrow> find (\<lambda>p. inlineData p \<noteq> None) ps))))"

text \<open>\<^verbatim>\<open>imagePart?.inlineData?.data\<close>\<close>

definition imageData :: "response \<Rightarrow> string option" where
  "imageData r =
     (case imagePart r of
        None \<Rightarrow> None
      | Some p \<Rightarrow> (case inlineData p of None \<Rightarrow> None | Some b \<Rightarrow> data b))"

text \<open>
  \<^verbatim>\<open>generateInpaintedImage\<close>. The two base64 arguments are what the caller obtained
  from \<^verbatim>\<open>split(',')[1]\<close>, so they may be undefined. \<open>blockedResponse\<close> is the
  error of the \<^verbatim>\<open>else\<close> branch, thrown when \<^verbatim>\<open>imagePart?.inlineData?.data\<close> is not
  truthy. The \<^verbatim>\<open>catch\<close> block logs the error to the console and throws it again.
\<close>

definition blockedResponse :: "response \<Rightarrow> js_error" where
  "blockedResponse resp =
     (case map_option trim (responseText resp) of
        None \<Rightarrow> NewError ''Image generation failed: No image data received from the API.''
      | Some t \<Rightarrow>
          if t \<noteq> []
          then NewError (''Image generation failed. Model response: '' @ t)
          else NewError ''Image generation failed: No image data received from the API.'')"

text \<open>The object handed to \<^verbatim>\<open>ai.models.generateContent\<close>.\<close>

definition inpaintRequest :: "string option \<Rightarrow> string \<Rightarrow> string option \<Rightarrow> string \<Rightarrow> request" where
  "inpaintRequest originalImageBase64 originalMimeType maskImageBase64 prompt' =
     \<lparr>model = ''gemini-2.5-flash-image'',
      contents = \<lparr>parts = Some
        [\<lparr>partText = Some prompt', inlineData = None\<rparr>,
         \<lparr>partText = None,
          inlineData = Some \<lparr>mimeType = Some originalMimeType,
                              data = originalImageBase64\<rparr>\<rparr>,
         \<lparr>partText = None,
          inlineData = Some \<lparr>mimeType = Some ''image/png'',
                              data = maskImageBase64\<rparr>\<rparr>]\<rparr>,
      config = \<lparr>responseModalities = [IMAGE]\<rparr>\<rparr>"

definition generateInpaintedImage ::
  "'w endpoint \<Rightarrow> string option \<Rightarrow> string \<Rightarrow> string option \<Rightarrow> string \<Rightarrow> 'w net
     \<Rightarrow> string promise \<times> 'w net" where
  "generateInpaintedImage ep originalImageBase64 originalMimeType maskImageBase64 prompt' n =
     (case generateContent ep
             (inpaintRequest originalImageBase64 originalMimeType maskImageBase64 prompt') n of
        (Rejected e, n') \<Rightarrow> (Rejected e, n')
      | (Pending, n') \<Rightarrow> (Pending, n')
      | (Resolved resp, n') \<Rightarrow>
          (case imageData resp of
             None \<Rightarrow> (Rejected (blockedResponse resp), n')
           | Some d \<Rightarrow>
               if d \<noteq> [] then (Resolved d, n')
               else (Rejected (blockedResponse resp), n')))"

section \<open>Generating (App.tsx)\<close>

text \<open>
  The \<^verbatim>\<open>catch\<close> block of \<^verbatim>\<open>handleGenerate\<close>:
  \<^verbatim>\<open>setError(error.message || 'An unknown error occurred.'); setStatus(Status.Error)\<close>.
\<close>

definition generateFailed :: "js_error \<Rightarrow> app \<Rightarrow> app" where
  "generateFailed e a =
     a\<lparr>error := Some (if truthy (message e)
                        then (case message e of Some m \<Rightarrow> m | None \<Rightarrow> [])
                        else ''An unknown error occurred.''),
       status := Error\<rparr>"

text \<open>The three state updates before the \<^verbatim>\<open>try\<close> block.\<close>

definition generateStarted :: "app \<Rightarrow> app" where
  "generateStarted a = a\<lparr>status := Loading, error := None, generatedImage := None\<rparr>"

text \<open>
  The awaited part of the \<^verbatim>\<open>try\<close> block: \<^verbatim>\<open>fileToBase64(originalImage)\<close>, then
  \<^verbatim>\<open>maskImage.split(',')[1]\<close> and the call of \<^verbatim>\<open>generateInpaintedImage\<close>.
\<close>

definition generateAttempt ::
  "'w endpoint \<Rightarrow> File \<Rightarrow> string \<Rightarrow> string \<Rightarrow> 'w net \<Rightarrow> string promise \<times> 'w net" where
  "generateAttempt ep img dataUrl prompt' n =
     (case fileToBase64 img of
        Rejected e \<Rightarrow> (Rejected e, n)
      | Pending \<Rightarrow> (Pending, n)
      | Resolved (originalImageBase64, originalMimeType) \<Rightarrow>
          generateInpaintedImage ep originalImageBase64 originalMimeType
            (element (split (CHR '','') dataUrl) 1) prompt' n)"

text \<open>
  \<^verbatim>\<open>handleGenerate\<close>, run to the point where nothing more will happen: the state of
  the application and of the network afterwards. While a promise is awaited the state is
  \<open>generateStarted a\<close>; it stays so when the promise is never settled.
\<close>

definition handleGenerate :: "'w endpoint \<Rightarrow> app \<Rightarrow> 'w net \<Rightarrow> app \<times> 'w net" where
  "handleGenerate ep a n =
     (case (originalImage a, maskImage a) of
        (Some img, Some dataUrl) \<Rightarrow>
          if dataUrl = [] \<or> trim (prompt a) = []
          then (a\<lparr>error := Some ''Please upload an image, mask an area, and enter a prompt.''\<rparr>, n)
          else
            (case generateAttempt ep img dataUrl (prompt a) n of
               (Resolved result, n') \<Rightarrow>
                 ((generateStarted a)
                    \<lparr>generatedImage := Some (''data:image/png;base64,'' @ result),
                     status := Done\<rparr>, n')
             | (Rejected e, n') \<Rightarrow> (generateFailed e (generateStarted a), n')
             | (Pending, n') \<Rightarrow> (generateStarted a, n'))
      | _ \<Rightarrow>
          (a\<lparr>error := Some ''Please upload an image, mask an area, and enter a prompt.''\<rparr>, n))"

section \<open>What is rendered (App.tsx)\<close>

definition isGenerateDisabled :: "app \<Rightarrow> bool" where
  "isGenerateDisabled a =
     (status a = Loading \<or> \<not> truthy (maskImage a) \<or> trim (prompt a) = [])"

text \<open>
  The \<^verbatim>\<open>img\<close> element of the generated image is rendered inside the working view,
  which needs a status other than \<open>Idle\<close> and an original image, under the condition
  \<^verbatim>\<open>generatedImage && status === Status.Done\<close>.
\<close>

definition showsWorkspace :: "app \<Rightarrow> bool" where
  "showsWorkspace a =
     ((status a = Masking \<or> status a = Loading \<or> status a = Done \<or> status a = Error)
      \<and> originalImage a \<noteq> None)"

definition showsGeneratedImage :: "app \<Rightarrow> bool" where
  "showsGeneratedImage a =
     (showsWorkspace a \<and> truthy (generatedImage a) \<and> status a = Done)"

section \<open>The masking canvas (components/MaskingCanvas.tsx)\<close>

subsection \<open>Numbers and canvas elements\<close>

text \<open>
  The sizes computed by \<^verbatim>\<open>drawImage\<close> are JavaScript numbers. A finite one is
  modelled by a real (the rounding of doubles is not modelled); a division by zero gives
  \<open>Infinity\<close> or \<open>NaN\<close>. Every operand in \<^verbatim>\<open>drawImage\<close> is non-negative, so
  negative infinity and negative zero do not occur, and the three operations are given
  for non-negative operands.
\<close>

datatype number = Num real | Infinity | NaN

fun jsDivide :: "number \<Rightarrow> number \<Rightarrow> number" where
  "jsDivide NaN b = NaN"
| "jsDivide a NaN = NaN"
| "jsDivide Infinity Infinity = NaN"
| "jsDivide Infinity (Num b) = Infinity"
| "jsDivide (Num a) Infinity = Num 0"
| "jsDivide (Num a) (Num b) =
     (if b = 0 then (if a = 0 then NaN else Infinity) else Num (a / b))"

fun jsTimes :: "number \<Rightarrow> number \<Rightarrow> number" where
  "jsTimes NaN b = NaN"
| "jsTimes a NaN = NaN"
| "jsTimes Infinity Infinity = Infinity"
| "jsTimes Infinity (Num b) = (if b = 0 then NaN else Infinity)"
| "jsTimes (Num a) Infinity = (if a = 0 then NaN else Infinity)"
| "jsTimes (Num a) (Num b) = Num (a * b)"

fun jsGreater :: "number \<Rightarrow> number \<Rightarrow> bool" where
  "jsGreater NaN b = False"
| "jsGreater a NaN = False"
| "jsGreater Infinity Infinity = False"
| "jsGreater Infinity (Num b) = True"
| "jsGreater (Num a) Infinity = False"
| "jsGreater (Num a) (Num b) = (a > b)"

text \<open>
  The \<^verbatim>\<open>width\<close> and \<^verbatim>\<open>height\<close> of a canvas element are attributes of type
  \<^verbatim>\<open>unsigned long\<close>: a number assigned to one is converted by dropping its fraction
  and reducing modulo \<open>2^32\<close>, and \<open>NaN\<close> and the infinities become 0.
\<close>

definition toUnsignedLong :: "number \<Rightarrow> nat" where
  "toUnsignedLong v =
     (case v of
        Num r \<Rightarrow> nat ((if 0 \<le> r then \<lfloor>r\<rfloor> else - \<lfloor>- r\<rfloor>) mod 2 ^ 32)
      | Infinity \<Rightarrow> 0
      | NaN \<Rightarrow> 0)"

record image =
  src :: string
  imageWidth :: nat
  imageHeight :: nat

text \<open>
  What has been painted on a canvas since it was last cleared, in order: the stroke of a
  path of one line segment, with the stroke style, line width, cap and join of the context
  at that moment, or an image drawn at a position with a size. Two canvases with the same
  list hold the same pixels. A stroke style is kept as the text that was assigned (the
  parsing of colours is not modelled), and a call of \<^verbatim>\<open>drawImage\<close> is recorded with
  the size it was given, also when that size is not finite and nothing is painted.
\<close>

datatype painted =
    Segment string real string string "real \<times> real" "real \<times> real"
  | Picture image real real number number

text \<open>
  A canvas element with its 2D context: the size of its pixel buffer, the drawing state
  of the context, what is painted, and the left and top of its bounding rectangle in the
  viewport. \<open>has2d\<close> says whether \<^verbatim>\<open>getContext('2d')\<close> gives a context.
\<close>

record canvas =
  width :: nat
  height :: nat
  strokeStyle :: string
  lineWidth :: real
  lineCap :: string
  lineJoin :: string
  bitmap :: "painted list"
  rectLeft :: real
  rectTop :: real
  has2d :: bool

text \<open>
  Assigning \<^verbatim>\<open>width\<close> or \<^verbatim>\<open>height\<close> clears the pixel buffer and puts the context
  back in its default state. Assigning \<^verbatim>\<open>lineWidth\<close> is ignored for a value that is
  not positive.
\<close>

definition resetContext :: "canvas \<Rightarrow> canvas" where
  "resetContext c =
     c\<lparr>strokeStyle := ''#000000'', lineWidth := 1, lineCap := ''butt'',
       lineJoin := ''miter'', bitmap := []\<rparr>"

definition setWidth :: "number \<Rightarrow> canvas \<Rightarrow> canvas" where
  "setWidth v c = resetContext (c\<lparr>width := toUnsignedLong v\<rparr>)"

definition setHeight :: "number \<Rightarrow> canvas \<Rightarrow> canvas" where
  "setHeight v c = resetContext (c\<lparr>height := toUnsignedLong v\<rparr>)"

definition setLineWidth :: "real \<Rightarrow> canvas \<Rightarrow> canvas" where
  "setLineWidth v c = (if 0 < v then c\<lparr>lineWidth := v\<rparr> else c)"

text \<open>
  \<^verbatim>\<open>beginPath(); moveTo(a); lineTo(b); stroke(); closePath()\<close>: the path is the one
  segment from \<open>a\<close> to \<open>b\<close>, stroked with the current state of the context.
\<close>

definition strokeLine :: "real \<times> real \<Rightarrow> real \<times> real \<Rightarrow> canvas \<Rightarrow> canvas" where
  "strokeLine a b c =
     c\<lparr>bitmap := bitmap c
        @ [Segment (strokeStyle c) (lineWidth c) (lineCap c) (lineJoin c) a b]\<rparr>"

definition clearRectAll :: "canvas \<Rightarrow> canvas" where
  "clearRectAll c = c\<lparr>bitmap := []\<rparr>"

subsection \<open>The component\<close>

text \<open>
  The properties the parent passes (\<^verbatim>\<open>onMaskChange\<close> apart) and the state of the
  component: its two state variables, the last point, and the three elements its refs
  point to (\<open>None\<close> while a ref is null; of the container only \<^verbatim>\<open>offsetWidth\<close> and
  \<^verbatim>\<open>offsetHeight\<close> are read). \<open>reported\<close> lists the arguments of the calls of
  \<^verbatim>\<open>onMaskChange\<close>, in order. Both canvas elements are styled with the width and height
  of \<open>dimensions\<close>, which is therefore their size on the screen.
\<close>

record props =
  imageUrl :: string
  brushSizeProp :: real
  brushColor :: string
  clearCounter :: nat

record maskingCanvas =
  isDrawing :: bool
  lastPoint :: "(real \<times> real) option"
  dimensions :: "number \<times> number"
  container :: "(nat \<times> nat) option"
  imageCanvas :: "canvas option"
  drawingCanvas :: "canvas option"
  reported :: "string list"

text \<open>
  The size computed in the \<^verbatim>\<open>onload\<close> handler of \<^verbatim>\<open>drawImage\<close>, from
  \<^verbatim>\<open>offsetWidth\<close> and \<^verbatim>\<open>offsetHeight\<close> of the container and the width and height of
  the image.
\<close>

definition displaySize :: "nat \<times> nat \<Rightarrow> image \<Rightarrow> number \<times> number" where
  "displaySize cont img =
     (let containerWidth = Num (real (fst cont));
          offsetHeight = Num (real (snd cont));
          aspectRatio = jsDivide (Num (real (imageWidth img))) (Num (real (imageHeight img)));
          newWidth = containerWidth;
          newHeight = jsDivide containerWidth aspectRatio
      in if jsGreater newHeight offsetHeight \<and> jsGreater offsetHeight (Num 0)
         then (jsTimes offsetHeight aspectRatio, offsetHeight)
         else (newWidth, newHeight))"

text \<open>
  The \<^verbatim>\<open>onload\<close> handler of \<^verbatim>\<open>drawImage\<close>, followed by the callback it defers with
  \<^verbatim>\<open>setTimeout(..., 0)\<close>.
\<close>

definition drawImage :: "image \<Rightarrow> maskingCanvas \<Rightarrow> maskingCanvas" where
  "drawImage img s =
     (case container s of
        None \<Rightarrow> s
      | Some cont \<Rightarrow>
          (case displaySize cont img of
             (newWidth, newHeight) \<Rightarrow>
               (let s1 = s\<lparr>dimensions := (newWidth, newHeight)\<rparr> in
                case (imageCanvas s1, drawingCanvas s1) of
                  (Some ic, Some dc) \<Rightarrow>
                    if has2d ic then
                      (let ic1 = setHeight newHeight (setWidth newWidth ic);
                           dc1 = setHeight newHeight (setWidth newWidth dc)
                       in s1\<lparr>imageCanvas :=
                                Some (ic1\<lparr>bitmap := bitmap ic1
                                              @ [Picture img 0 0 newWidth newHeight]\<rparr>),
                              drawingCanvas := Some dc1\<rparr>)
                    else s1
                | _ \<Rightarrow> s1)))"

definition clearCanvas :: "maskingCanvas \<Rightarrow> maskingCanvas" where
  "clearCanvas s =
     (case drawingCanvas s of
        None \<Rightarrow> s
      | Some c \<Rightarrow>
          if has2d c
          then s\<lparr>drawingCanvas := Some (clearRectAll c), reported := reported s @ [[]]\<rparr>
          else s)"

text \<open>The effect on \<^verbatim>\<open>clearCounter\<close>: \<^verbatim>\<open>if (clearCounter > 0) clearCanvas()\<close>.\<close>

definition clearCounterEffect :: "props \<Rightarrow> maskingCanvas \<Rightarrow> maskingCanvas" where
  "clearCounterEffect p s = (if clearCounter p > 0 then clearCanvas s else s)"

text \<open>A mouse event is given by \<^verbatim>\<open>clientX\<close> and \<^verbatim>\<open>clientY\<close>.\<close>

definition getCoordinates :: "real \<times> real \<Rightarrow> maskingCanvas \<Rightarrow> (real \<times> real) option" where
  "getCoordinates ev s =
     (case drawingCanvas s of
        None \<Rightarrow> None
      | Some c \<Rightarrow> Some (fst ev - rectLeft c, snd ev - rectTop c))"

definition startDrawing :: "real \<times> real \<Rightarrow> maskingCanvas \<Rightarrow> maskingCanvas" where
  "startDrawing ev s =
     (case getCoordinates ev s of
        None \<Rightarrow> s
      | Some coords \<Rightarrow> s\<lparr>isDrawing := True, lastPoint := Some coords\<rparr>)"

definition draw :: "props \<Rightarrow> real \<times> real \<Rightarrow> maskingCanvas \<Rightarrow> maskingCanvas" where
  "draw p ev s =
     (if \<not> isDrawing s then s
      else (case (getCoordinates ev s, lastPoint s, drawingCanvas s) of
              (Some coords, Some lp, Some c) \<Rightarrow>
                if has2d c then
                  (let ctx = setLineWidth (brushSizeProp p) (c\<lparr>strokeStyle := brushColor p\<rparr>);
                       ctx = ctx\<lparr>lineCap := ''round'', lineJoin := ''round''\<rparr>
                   in s\<lparr>drawingCanvas := Some (strokeLine lp coords ctx),
                        lastPoint := Some coords\<rparr>)
                else s
            | _ \<Rightarrow> s))"

text \<open>
  \<^verbatim>\<open>stopDrawing\<close> handles both \<^verbatim>\<open>onMouseUp\<close> and \<^verbatim>\<open>onMouseLeave\<close>. The encoding of
  the pixel buffer by \<^verbatim>\<open>toDataURL\<close> is a parameter.
\<close>

definition stopDrawing :: "(canvas \<Rightarrow> string) \<Rightarrow> maskingCanvas \<Rightarrow> maskingCanvas" where
  "stopDrawing toDataURL s =
     (if \<not> isDrawing s then s
      else (let s1 = s\<lparr>isDrawing := False, lastPoint := None\<rparr> in
            case drawingCanvas s1 of
              None \<Rightarrow> s1
            | Some c \<Rightarrow> s1\<lparr>reported := reported s1 @ [toDataURL c]\<rparr>))"

text \<open>
  What can happen to a mounted component: the four mouse events of the drawing canvas,
  a run of the effect on \<^verbatim>\<open>clearCounter\<close>, and the load of the image that
  \<^verbatim>\<open>drawImage\<close> started (after mounting, a new image URL, or a resize of the window).
\<close>

datatype event =
    MouseDown real real
  | MouseMove real real
  | MouseUp
  | MouseLeave
  | ClearCounterChanged
  | ImageLoaded image

fun step :: "(canvas \<Rightarrow> string) \<Rightarrow> props \<Rightarrow> event \<Rightarrow> maskingCanvas \<Rightarrow> maskingCanvas" where
  "step toDataURL p (MouseDown cx cy) s = startDrawing (cx, cy) s"
| "step toDataURL p (MouseMove cx cy) s = draw p (cx, cy) s"
| "step toDataURL p MouseUp s = stopDrawing toDataURL s"
| "step toDataURL p MouseLeave s = stopDrawing toDataURL s"
| "step toDataURL p ClearCounterChanged s = clearCounterEffect p s"
| "step toDataURL p (ImageLoaded img) s = drawImage img s"

text \<open>A history: each event with the properties of the render it happens in.\<close>

fun run :: "(canvas \<Rightarrow> string) \<Rightarrow> (props \<times> event) list \<Rightarrow> maskingCanvas \<Rightarrow> maskingCanvas" where
  "run toDataURL [] s = s"
| "run toDataURL ((p, ev) # rest) s = run toDataURL rest (step toDataURL p ev s)"

text \<open>The pixel buffer of the stroke layer.\<close>

definition maskBuffer :: "maskingCanvas \<Rightarrow> painted list option" where
  "maskBuffer s = map_option bitmap (drawingCanvas s)"

text \<open>A canvas element as created, and the component as mounted in a container.\<close>

definition newCanvas :: "real \<Rightarrow> real \<Rightarrow> canvas" where
  "newCanvas x0 y0 =
     \<lparr>width = 300, height = 150, strokeStyle = ''#000000'', lineWidth = 1,
      lineCap = ''butt'', lineJoin = ''miter'', bitmap = [],
      rectLeft = x0, rectTop = y0, has2d = True\<rparr>"

definition mounted :: "nat \<times> nat \<Rightarrow> maskingCanvas" where
  "mounted cont =
     \<lparr>isDrawing = False, lastPoint = None, dimensions = (Num 0, Num 0),
      container = Some cont, imageCanvas = Some (newCanvas 0 0),
      drawingCanvas = Some (newCanvas 0 0), reported = []\<rparr>"

section \<open>Example values\<close>

text \<open>
  A response with one candidate, an endpoint that always answers with a given response, one
  that always fails, one that never answers, and a network on which nothing was sent yet.
  The state of these endpoints counts the requests they have received.
\<close>

definition imageResponse :: "part list \<Rightarrow> string option \<Rightarrow> response" where
  "imageResponse ps t =
     \<lparr>candidates = Some [\<lparr>content = Some \<lparr>parts = Some ps\<rparr>\<rparr>], responseText = t\<rparr>"

definition inlinePart :: "string \<Rightarrow> string \<Rightarrow> part" where
  "inlinePart m d = \<lparr>partText = None, inlineData = Some \<lparr>mimeType = Some m, data = Some d\<rparr>\<rparr>"

definition textPart :: "string \<Rightarrow> part" where
  "textPart t = \<lparr>partText = Some t, inlineData = None\<rparr>"

definition answering :: "response \<Rightarrow> nat endpoint" where
  "answering resp = (\<lambda>req w. (Resolved resp, Suc w))"

definition failing :: "js_error \<Rightarrow> nat endpoint" where
  "failing e = (\<lambda>req w. (Rejected e, Suc w))"

definition idleNet :: "nat net" where
  "idleNet = \<lparr>remote = 0, issued = []\<rparr>"

definition pngFile :: "8 word list \<Rightarrow> File" where
  "pngFile bs = \<lparr>fileName = ''room.png'', fileType = ''image/png'', fileBytes = bs,
                 readable = True\<rparr>"

text \<open>
  Three states of the application: after the upload of a small PNG file, after a mask
  was then reported, and after a prompt was then typed.
\<close>

definition uploaded :: app where
  "uploaded = handleImageUpload (Some (pngFile [65, 66, 67])) initialApp"

definition masked :: app where
  "masked = handleMaskChange ''data:image/png;base64,QQ=='' uploaded"

definition prompted :: app where
  "prompted = setPrompt ''a red sofa'' masked"

text \<open>
  A media type as the application meets it in data URLs: not empty, printable ASCII,
  no upper-case letter, and none of the comma, the colon and the semicolon.
\<close>

definition plainMediaType :: "string \<Rightarrow> bool" where
  "plainMediaType m =
     (m \<noteq> [] \<and>
      list_all (\<lambda>c. 32 \<le> (of_char c :: nat) \<and> (of_char c :: nat) \<le> 126
                    \<and> \<not> (65 \<le> (of_char c :: nat) \<and> (of_char c :: nat) \<le> 90)
                    \<and> c \<noteq> CHR '','' \<and> c \<noteq> CHR '':'' \<and> c \<noteq> CHR '';'') m)"

text \<open>
  A response carrying a PNG image, and the state after a generation that was answered
  with it.
\<close>

definition pngResponse :: response where
  "pngResponse = imageResponse [inlinePart ''image/png'' ''iVBORw0KGgo=''] None"

definition finished :: app where
  "finished = fst (handleGenerate (answering pngResponse) prompted idleNet)"

text \<open>
  The moves of the status that the specification names as the pipeline: upload (from
  \<open>Idle\<close> to \<open>Masking\<close>), call of the endpoint (to \<open>Loading\<close>), result (to \<open>Done\<close>) or
  failure (to \<open>Error\<close>). This definition follows the words of the specification; it is
  what the transitions of the code are compared with.
\<close>

definition pipelineMove :: "Status \<Rightarrow> Status \<Rightarrow> bool" where
  "pipelineMove s t =
     ((s = Idle \<and> t = Masking) \<or> (s = Masking \<and> t = Loading)
      \<or> (s = Loading \<and> t = Done) \<or> (s = Loading \<and> t = Error))"

text \<open>
  For the masking canvas: the properties the application passes at first (brush size 40,
  white), an encoder of the pixel buffer, an image of 200 by 100 pixels, and the states of
  a component mounted in a container of 400 by 300 after a press at (10, 10), after a
  move to (20, 25), and after the release.
\<close>

definition whiteBrush :: props where
  "whiteBrush = \<lparr>imageUrl = ''blob:room'', brushSizeProp = 40, brushColor = ''#FFFFFF'',
                  clearCounter = 0\<rparr>"

definition pngDataURL :: "canvas \<Rightarrow> string" where
  "pngDataURL c = ''data:image/png;base64,iVBORw0KGgo=''"

definition roomImage :: image where
  "roomImage = \<lparr>src = ''blob:room'', imageWidth = 200, imageHeight = 100\<rparr>"

definition pressed :: maskingCanvas where
  "pressed = step pngDataURL whiteBrush (MouseDown 10 10) (mounted (400, 300))"

definition stroked :: maskingCanvas where
  "stroked = step pngDataURL whiteBrush (MouseMove 20 25) pressed"

definition afterStroke :: maskingCanvas where
  "afterStroke = run pngDataURL
     [(whiteBrush, MouseDown 10 10), (whiteBrush, MouseMove 20 25), (whiteBrush, MouseUp)]
     (mounted (400, 300))"

section \<open>Predicates on the masking canvas\<close>

text \<open>The four mouse events of the drawing canvas.\<close>

fun isPointerEvent :: "event \<Rightarrow> bool" where
  "isPointerEvent (MouseDown cx cy) = True"
| "isPointerEvent (MouseMove cx cy) = True"
| "isPointerEvent MouseUp = True"
| "isPointerEvent MouseLeave = True"
| "isPointerEvent ClearCounterChanged = False"
| "isPointerEvent (ImageLoaded img) = False"

text \<open>
  The two layers are kept apart when the image canvas holds nothing but drawn images and
  the drawing canvas nothing but line segments stroked with round caps and round joins.
\<close>

fun roundSegment :: "painted \<Rightarrow> bool" where
  "roundSegment (Segment style w cap join a b) = (cap = ''round'' \<and> join = ''round'')"
| "roundSegment (Picture img px py w h) = False"

fun picture :: "painted \<Rightarrow> bool" where
  "picture (Picture img px py w h) = True"
| "picture (Segment style w cap join a b) = False"

definition layered :: "maskingCanvas \<Rightarrow> bool" where
  "layered s =
     ((case imageCanvas s of None \<Rightarrow> True | Some c \<Rightarrow> list_all picture (bitmap c))
      \<and> (case drawingCanvas s of None \<Rightarrow> True | Some c \<Rightarrow> list_all roundSegment (bitmap c)))"

section \<open>The request to the image-generation service\<close>

lemma generateContent_issued:
  "issued (snd (generateContent ep req n)) = issued n @ [req]"
  by (simp add: generateContent_def split: prod.split)

lemma generateContent_remote:
  "remote (snd (generateContent ep req n)) = snd (ep req (remote n))"
  by (simp add: generateContent_def split: prod.split)

lemma generateInpaintedImage_snd:
  "snd (generateInpaintedImage ep ob mt mb pr n)
     = snd (generateContent ep (inpaintRequest ob mt mb pr) n)"
  by (simp add: generateInpaintedImage_def split: prod.split promise.split option.split)

lemma generateInpaintedImage_fst:
  "fst (generateInpaintedImage ep ob mt mb pr n) =
     (case fst (ep (inpaintRequest ob mt mb pr) (remote n)) of
        Rejected e \<Rightarrow> Rejected e
      | Pending \<Rightarrow> Pending
      | Resolved resp \<Rightarrow>
          (case imageData resp of
             None \<Rightarrow> Rejected (blockedResponse resp)
           | Some d \<Rightarrow> if d \<noteq> [] then Resolved d else Rejected (blockedResponse resp)))"
  by (simp add: generateInpaintedImage_def generateContent_def
           split: prod.split promise.split option.split)

text \<open>
  C2. Every invocation of generateInpaintedImage hands exactly one request to
  \<^verbatim>\<open>ai.models.generateContent\<close>: the list of issued requests grows by that one request,
  and the state of the endpoint afterwards is the one a single call leaves (no retry,
  batch or second request). An error the call fails with is thrown on to the caller
  unchanged.
\<close>

theorem generateInpaintedImage_single_request:
  "issued (snd (generateInpaintedImage ep ob mt mb pr n))
     = issued n @ [inpaintRequest ob mt mb pr]
   \<and> remote (snd (generateInpaintedImage ep ob mt mb pr n))
       = snd (ep (inpaintRequest ob mt mb pr) (remote n))
   \<and> (\<forall>e. fst (ep (inpaintRequest ob mt mb pr) (remote n)) = Rejected e
          \<longrightarrow> fst (generateInpaintedImage ep ob mt mb pr n) = Rejected e)"
  by (simp add: generateInpaintedImage_snd generateContent_issued generateContent_remote
        generateInpaintedImage_fst)

theorem generateInpaintedImage_single_request_witness:
  "issued (snd (generateInpaintedImage (failing (NewError ''quota exceeded''))
                  (Some ''QUJD'') ''image/jpeg'' (Some ''QQ=='') ''a red sofa'' idleNet))
     = [inpaintRequest (Some ''QUJD'') ''image/jpeg'' (Some ''QQ=='') ''a red sofa'']
   \<and> remote (snd (generateInpaintedImage (failing (NewError ''quota exceeded''))
                  (Some ''QUJD'') ''image/jpeg'' (Some ''QQ=='') ''a red sofa'' idleNet)) = 1
   \<and> fst (generateInpaintedImage (failing (NewError ''quota exceeded''))
                  (Some ''QUJD'') ''image/jpeg'' (Some ''QQ=='') ''a red sofa'' idleNet)
       = Rejected (NewError ''quota exceeded'')"
  using generateInpaintedImage_single_request
      [of "failing (NewError ''quota exceeded'')" "Some ''QUJD''" "''image/jpeg''"
          "Some ''QQ==''" "''a red sofa''" idleNet]
  by (simp add: failing_def idleNet_def)

text \<open>
  C10. Every request built by generateInpaintedImage has the content parts
  [prompt text, original image, mask image] in this order, declares the mask part with
  the media type image/png whatever the media type of the original image is, and asks
  for IMAGE as the only response modality.
\<close>

theorem generateInpaintedImage_request_framing:
  "issued (snd (generateInpaintedImage ep ob mt mb pr n))
     = issued n @
       [\<lparr>model = ''gemini-2.5-flash-image'',
         contents = \<lparr>parts = Some
           [\<lparr>partText = Some pr, inlineData = None\<rparr>,
            \<lparr>partText = None, inlineData = Some \<lparr>mimeType = Some mt, data = ob\<rparr>\<rparr>,
            \<lparr>partText = None,
             inlineData = Some \<lparr>mimeType = Some ''image/png'', data = mb\<rparr>\<rparr>]\<rparr>,
         config = \<lparr>responseModalities = [IMAGE]\<rparr>\<rparr>]"
  by (simp add: generateInpaintedImage_snd generateContent_issued inpaintRequest_def)

section \<open>The result of the image-generation service\<close>

text \<open>
  C3, as the code has it. When the call is answered with a response: generateInpaintedImage
  returns the data of the first part carrying inlineData in the first candidate's content
  parts when such a part exists and its data is a non-empty string; when there is no such
  part, or its data is missing or empty, it throws an error, whose message includes the
  trimmed text of the response when that text is non-empty and is the fixed message
  'Image generation failed: No image data received from the API.' otherwise. It never
  returns a value without inline image data being present.
\<close>

theorem generateInpaintedImage_image_or_error:
  assumes "fst (ep (inpaintRequest ob mt mb pr) (remote n)) = Resolved resp"
  shows "(\<forall>p b d. imagePart resp = Some p \<and> inlineData p = Some b \<and> data b = Some d \<and> d \<noteq> []
            \<longrightarrow> fst (generateInpaintedImage ep ob mt mb pr n) = Resolved d)
       \<and> (\<not> truthy (imageData resp) \<longrightarrow>
            (\<forall>t. responseText resp = Some t \<and> trim t \<noteq> []
               \<longrightarrow> fst (generateInpaintedImage ep ob mt mb pr n)
                    = Rejected (NewError (''Image generation failed. Model response: '' @ trim t)))
          \<and> (responseText resp = None \<or> (\<exists>t. responseText resp = Some t \<and> trim t = [])
               \<longrightarrow> fst (generateInpaintedImage ep ob mt mb pr n)
                    = Rejected (NewError
                        ''Image generation failed: No image data received from the API.'')))
       \<and> (\<forall>d. fst (generateInpaintedImage ep ob mt mb pr n) = Resolved d
            \<longrightarrow> d \<noteq> [] \<and> (\<exists>p b. imagePart resp = Some p \<and> inlineData p = Some b
                                   \<and> data b = Some d))"
  using assms
  by (auto simp: generateInpaintedImage_fst imageData_def truthy_def blockedResponse_def
           split: option.splits if_splits)

lemma imagePart_imageResponse:
  "imagePart (imageResponse ps t) = find (\<lambda>p. inlineData p \<noteq> None) ps"
  by (simp add: imagePart_def imageResponse_def element_def)

theorem generateInpaintedImage_image_or_error_witness:
  "fst (generateInpaintedImage
          (answering (imageResponse [textPart ''Here you go'', inlinePart ''image/png'' ''iVBORw0KGgo=''] None))
          (Some ''QUJD'') ''image/jpeg'' (Some ''QQ=='') ''a red sofa'' idleNet)
     = Resolved ''iVBORw0KGgo=''
   \<and> fst (generateInpaintedImage
          (answering (imageResponse [textPart '' I cannot edit this image. '']
                        (Some '' I cannot edit this image. '')))
          (Some ''QUJD'') ''image/jpeg'' (Some ''QQ=='') ''a red sofa'' idleNet)
     = Rejected (NewError
         ''Image generation failed. Model response: I cannot edit this image.'')
   \<and> fst (generateInpaintedImage (answering (imageResponse [] None))
          (Some ''QUJD'') ''image/jpeg'' (Some ''QQ=='') ''a red sofa'' idleNet)
     = Rejected (NewError ''Image generation failed: No image data received from the API.'')"
proof -
  let ?r1 = "imageResponse [textPart ''Here you go'', inlinePart ''image/png'' ''iVBORw0KGgo=''] None"
  let ?r2 = "imageResponse [textPart '' I cannot edit this image. '']
               (Some '' I cannot edit this image. '')"
  let ?r3 = "imageResponse [] None"
  let ?req = "inpaintRequest (Some ''QUJD'') ''image/jpeg'' (Some ''QQ=='') ''a red sofa''"
  have a1: "fst (answering ?r1 ?req (remote idleNet)) = Resolved ?r1"
    and a2: "fst (answering ?r2 ?req (remote idleNet)) = Resolved ?r2"
    and a3: "fst (answering ?r3 ?req (remote idleNet)) = Resolved ?r3"
    by (simp_all add: answering_def)
  have p1: "imagePart ?r1 = Some (inlinePart ''image/png'' ''iVBORw0KGgo='')"
    by (simp add: imagePart_imageResponse textPart_def inlinePart_def)
  have i1: "inlineData (inlinePart ''image/png'' ''iVBORw0KGgo='')
              = Some \<lparr>mimeType = Some ''image/png'', data = Some ''iVBORw0KGgo=''\<rparr>"
    by (simp add: inlinePart_def)
  have n2: "\<not> truthy (imageData ?r2)"
    by (simp add: imageData_def imagePart_imageResponse textPart_def truthy_def)
  have n3: "\<not> truthy (imageData ?r3)"
    by (simp add: imageData_def imagePart_imageResponse truthy_def)
  have t2: "trim '' I cannot edit this image. '' = ''I cannot edit this image.''"
    by (simp add: trim_def isWhiteSpace_def)
  have "fst (generateInpaintedImage (answering ?r1) (Some ''QUJD'') ''image/jpeg''
               (Some ''QQ=='') ''a red sofa'' idleNet) = Resolved ''iVBORw0KGgo=''"
    using generateInpaintedImage_image_or_error [of "answering ?r1" "Some ''QUJD''" "''image/jpeg''"
        "Some ''QQ==''" "''a red sofa''" idleNet ?r1, OF a1] p1 i1 by simp
  moreover
  have "fst (generateInpaintedImage (answering ?r2) (Some ''QUJD'') ''image/jpeg''
               (Some ''QQ=='') ''a red sofa'' idleNet)
          = Rejected (NewError
              ''Image generation failed. Model response: I cannot edit this image.'')"
    using generateInpaintedImage_image_or_error [of "answering ?r2" "Some ''QUJD''" "''image/jpeg''"
        "Some ''QQ==''" "''a red sofa''" idleNet ?r2, OF a2] n2 t2
    by (simp add: imageResponse_def)
  moreover
  have "fst (generateInpaintedImage (answering ?r3) (Some ''QUJD'') ''image/jpeg''
               (Some ''QQ=='') ''a red sofa'' idleNet)
          = Rejected (NewError
              ''Image generation failed: No image data received from the API.'')"
    using generateInpaintedImage_image_or_error [of "answering ?r3" "Some ''QUJD''" "''image/jpeg''"
        "Some ''QQ==''" "''a red sofa''" idleNet ?r3, OF a3] n3
    by (simp add: imageResponse_def)
  ultimately show ?thesis by simp
qed

text \<open>
  The claim C3 as stated fails: the response below has a first part carrying inlineData,
  whose data is the empty string, followed by a part with an image. The function does not
  return the data of the first part; it throws.
\<close>

theorem generateInpaintedImage_empty_data_counterexample:
  "imagePart (imageResponse [inlinePart ''image/png'' [], inlinePart ''image/png'' ''iVBORw0KGgo=''] None)
     = Some (inlinePart ''image/png'' [])
   \<and> inlineData (inlinePart ''image/png'' [])
       = Some \<lparr>mimeType = Some ''image/png'', data = Some []\<rparr>
   \<and> fst (generateInpaintedImage
            (answering (imageResponse
               [inlinePart ''image/png'' [], inlinePart ''image/png'' ''iVBORw0KGgo=''] None))
            (Some ''QUJD'') ''image/jpeg'' (Some ''QQ=='') ''a red sofa'' idleNet)
       = Rejected (NewError ''Image generation failed: No image data received from the API.'')"
  by (simp add: generateInpaintedImage_fst answering_def imageData_def imagePart_def
        element_def inlinePart_def blockedResponse_def imageResponse_def)

section \<open>Base64: decoding undoes encoding\<close>

lemma of_char_b64char:
  "i < 64 \<Longrightarrow> (of_char (b64char i) :: nat) =
     (if i < 26 then 65 + i else if i < 52 then 71 + i else if i < 62 then i - 4
      else if i = 62 then 43 else 47)"
  by (simp add: b64char_def)

lemma b64value_b64char: "i < 64 \<Longrightarrow> b64value (b64char i) = Some i"
  unfolding b64value_def Let_def by (simp only: of_char_b64char) (simp; arith?)

lemma b64value_not_space: "b64value c = Some v \<Longrightarrow> \<not> isAsciiWhitespace c"
  by (auto simp: b64value_def isAsciiWhitespace_def Let_def split: if_splits)

lemma b64value_eq: "b64value (CHR ''='') = None"
  by (simp add: b64value_def)

lemma b64value_comma: "b64value (CHR '','') = None"
  by (simp add: b64value_def)

lemma sextet_arith1:
  fixes x y :: nat
  assumes "y < 256"
  shows "(x div 4) * 4 + ((x mod 4) * 16 + y div 16) div 16 = x"
proof -
  have "y div 16 < 16" using assms by simp
  then have "((x mod 4) * 16 + y div 16) div 16 = x mod 4" by simp
  then show ?thesis by simp
qed

lemma sextet_arith2:
  fixes x y z :: nat
  assumes "y < 256" "z < 256"
  shows "(((x mod 4) * 16 + y div 16) mod 16) * 16 + ((y mod 16) * 4 + z div 64) div 4 = y"
proof -
  have a: "y div 16 < 16" using assms by simp
  then have "((x mod 4) * 16 + y div 16) mod 16 = y div 16" by simp
  moreover have "z div 64 < 4" using assms by simp
  then have "((y mod 16) * 4 + z div 64) div 4 = y mod 16" by simp
  ultimately show ?thesis by simp
qed

lemma sextet_arith3:
  fixes y z :: nat
  assumes "z < 256"
  shows "(((y mod 16) * 4 + z div 64) mod 4) * 64 + z mod 64 = z"
proof -
  have "z div 64 < 4" using assms by simp
  then have "((y mod 16) * 4 + z div 64) mod 4 = z div 64" by simp
  then show ?thesis by simp
qed

lemma unat_byte: "unat (a :: 8 word) < 256"
  using unsigned_less [of a] by simp

lemma sextets_bound: "s \<in> set (sextets bs) \<Longrightarrow> s < 64"
proof (induction bs arbitrary: s rule: sextets.induct)
  case (1 a b c rest)
  have "unat a div 4 < 64" "unat a mod 4 * 16 + unat b div 16 < 64"
       "unat b mod 16 * 4 + unat c div 64 < 64" "unat c mod 64 < 64"
    using unat_byte [of a] unat_byte [of b] unat_byte [of c] by simp_all
  with 1 show ?case by auto
next
  case (2 a b)
  have "unat a div 4 < 64" "unat a mod 4 * 16 + unat b div 16 < 64"
       "unat b mod 16 * 4 < 64"
    using unat_byte [of a] unat_byte [of b] by simp_all
  with 2 show ?case by auto
next
  case (3 a)
  have "unat a div 4 < 64" "unat a mod 4 * 16 < 64"
    using unat_byte [of a] by simp_all
  with 3 show ?case by auto
next
  case 4
  then show ?case by simp
qed

lemma byte1:
  fixes a b :: "8 word"
  shows "(of_nat ((unat a div 4) * 4 + ((unat a mod 4) * 16 + unat b div 16) div 16) :: 8 word) = a"
  by (subst sextet_arith1 [OF unat_byte]) simp

lemma byte2:
  fixes a b c :: "8 word"
  shows "(of_nat ((((unat a mod 4) * 16 + unat b div 16) mod 16) * 16
      + ((unat b mod 16) * 4 + unat c div 64) div 4) :: 8 word) = b"
  by (subst sextet_arith2 [OF unat_byte unat_byte]) simp

lemma byte3:
  fixes b c :: "8 word"
  shows "(of_nat ((((unat b mod 16) * 4 + unat c div 64) mod 4) * 64 + unat c mod 64) :: 8 word) = c"
  by (subst sextet_arith3 [OF unat_byte]) simp

lemma byte2_last:
  fixes a b :: "8 word"
  shows "(of_nat ((((unat a mod 4) * 16 + unat b div 16) mod 16) * 16
      + ((unat b mod 16) * 4) div 4) :: 8 word) = b"
  using byte2 [of a b 0] by simp

lemma byte1_last:
  fixes a :: "8 word"
  shows "(of_nat ((unat a div 4) * 4 + ((unat a mod 4) * 16) div 16) :: 8 word) = a"
  using byte1 [of a 0] by simp

lemma octets_sextets: "octets (sextets bs) = bs"
proof (induction bs rule: sextets.induct)
  case (1 a b c rest)
  then show ?case
    by (simp only: sextets.simps octets.simps append_Cons append_Nil byte1 byte2 byte3)
next
  case (2 a b)
  show ?case
    by (simp only: sextets.simps octets.simps byte1 byte2_last)
next
  case (3 a)
  show ?case
    by (simp only: sextets.simps octets.simps byte1_last)
next
  case 4
  show ?case by simp
qed

lemma Suc3_mod3: "Suc (Suc (Suc n)) mod 3 = n mod 3"
proof -
  have "Suc (Suc (Suc n)) = n + 3" by simp
  then show ?thesis by (simp only: mod_add_self2)
qed

lemma Suc4_mod4: "Suc (Suc (Suc (Suc n))) mod 4 = n mod 4"
proof -
  have "Suc (Suc (Suc (Suc n))) = n + 4" by simp
  then show ?thesis by (simp only: mod_add_self2)
qed

lemma length_b64encode_aux:
  "(length (sextets bs) + (3 - length bs mod 3) mod 3) mod 4 = 0"
proof (induction bs rule: sextets.induct)
  case (1 a b c rest)
  then show ?case by (simp add: Suc3_mod3 Suc4_mod4)
qed simp_all

lemma length_sextets_mod: "length (sextets bs) mod 4 \<noteq> 1"
proof (induction bs rule: sextets.induct)
  case (1 a b c rest)
  then show ?case by (simp add: Suc4_mod4)
qed simp_all

lemma those_b64value:
  "\<forall>s \<in> set ss. s < 64 \<Longrightarrow> those (map b64value (map b64char ss)) = Some ss"
  by (induction ss) (simp_all add: b64value_b64char)

lemma b64char_not_eq: "i < 64 \<Longrightarrow> b64char i \<noteq> CHR ''=''"
  using b64value_b64char [of i] b64value_eq by auto

lemma stripPadding_padded:
  assumes "CHR ''='' \<notin> set xs" and "k \<le> 2" and "(length xs + k) mod 4 = 0"
  shows "stripPadding (xs @ replicate k (CHR ''='')) = xs"
proof -
  have nl: "last xs \<noteq> CHR ''=''" if "xs \<noteq> []"
    by (metis last_in_set assms(1) that)
  consider "k = 0" | "k = 1" | "k = 2" using assms(2) by linarith
  then show ?thesis
  proof cases
    case 1
    with nl assms(3) show ?thesis by (cases "xs = []") (simp_all add: stripPadding_def)
  next
    case 2
    with nl assms(3) show ?thesis
      by (cases "xs = []") (simp_all add: stripPadding_def butlast_append)
  next
    case 3
    have r: "replicate k (CHR ''='') = [CHR ''='', CHR ''='']"
      using 3 by (simp add: numeral_2_eq_2)
    show ?thesis using assms(3) 3 unfolding r
      by (simp add: stripPadding_def butlast_append)
  qed
qed

lemma b64encode_chars:
  "c \<in> set (b64encode bs) \<Longrightarrow> c = CHR ''='' \<or> (\<exists>i<64. c = b64char i)"
  by (auto simp: b64encode_def dest: sextets_bound)

lemma b64char_not_space: "i < 64 \<Longrightarrow> \<not> isAsciiWhitespace (b64char i)"
  using b64value_b64char [of i] b64value_not_space by blast

lemma b64encode_no_space: "filter (\<lambda>c. \<not> isAsciiWhitespace c) (b64encode bs) = b64encode bs"
proof -
  have "\<not> isAsciiWhitespace c" if "c \<in> set (b64encode bs)" for c
    using b64encode_chars [OF that] b64char_not_space
    by (auto simp: isAsciiWhitespace_def)
  then show ?thesis by simp
qed

lemma stripPadding_b64encode: "stripPadding (b64encode bs) = map b64char (sextets bs)"
  unfolding b64encode_def
proof (rule stripPadding_padded)
  show "CHR ''='' \<notin> set (map b64char (sextets bs))"
    by (metis (no_types, lifting) b64char_not_eq sextets_bound imageE list.set_map)
  show "(3 - length bs mod 3) mod 3 \<le> 2" by simp
  show "(length (map b64char (sextets bs)) + (3 - length bs mod 3) mod 3) mod 4 = 0"
    using length_b64encode_aux [of bs] by simp
qed

lemma atob_b64encode: "atob (b64encode bs) = Inr (map (\<lambda>w. char_of (unat w)) bs)"
proof -
  have "those (map b64value (map b64char (sextets bs))) = Some (sextets bs)"
    by (rule those_b64value) (simp add: sextets_bound)
  then show ?thesis
    using length_sextets_mod [of bs]
    by (simp add: atob_def b64encode_no_space stripPadding_b64encode octets_sextets)
qed

lemma fillBytes_prefix:
  "n \<le> length bstr \<Longrightarrow> length u8arr = length bstr \<Longrightarrow>
     fillBytes n bstr u8arr = map (\<lambda>c. of_nat (of_char c)) (take n bstr) @ drop n u8arr"
proof (induction n arbitrary: u8arr)
  case 0
  then show ?case by simp
next
  case (Suc n)
  then have "fillBytes (Suc n) bstr u8arr
      = map (\<lambda>c. of_nat (of_char c)) (take n bstr)
        @ drop n (u8arr[n := of_nat (of_char (bstr ! n))])"
    by simp
  also have "drop n (u8arr[n := of_nat (of_char (bstr ! n))])
      = of_nat (of_char (bstr ! n)) # drop (Suc n) u8arr"
    using Suc.prems by (simp add: Cons_nth_drop_Suc [symmetric])
  finally show ?case using Suc.prems by (simp add: take_Suc_conv_app_nth)
qed

lemma fillBytes_all:
  "fillBytes (length bstr) bstr (replicate (length bstr) 0) = map (\<lambda>c. of_nat (of_char c)) bstr"
  by (simp add: fillBytes_prefix)

lemma byte_of_char_of: "(of_nat (of_char (char_of (unat w))) :: 8 word) = w"
  for w :: "8 word"
  using unat_byte [of w] by simp

lemma split_no_sep: "sep \<notin> set xs \<Longrightarrow> split sep xs = [xs]"
  by (induction xs) auto

lemma split_at_sep: "sep \<notin> set xs \<Longrightarrow> split sep (xs @ sep # ys) = xs # split sep ys"
  by (induction xs) auto

lemma lazyUntilSemicolon_prefix:
  "\<forall>c \<in> set m. c \<noteq> CHR '';'' \<and> (of_char c :: nat) \<noteq> 10 \<and> (of_char c :: nat) \<noteq> 13 \<Longrightarrow>
     lazyUntilSemicolon (m @ CHR '';'' # rest) = Some m"
  by (induction m) auto

section \<open>Data URLs and files\<close>

lemma plainMediaType_chars:
  assumes "plainMediaType m" and "c \<in> set m"
  shows "32 \<le> (of_char c :: nat)" "(of_char c :: nat) \<le> 126"
    "\<not> (65 \<le> (of_char c :: nat) \<and> (of_char c :: nat) \<le> 90)"
    "c \<noteq> CHR '',''" "c \<noteq> CHR '':''" "c \<noteq> CHR '';''"
  using assms by (auto simp: plainMediaType_def list_all_iff)

lemma b64encode_no_comma: "CHR '','' \<notin> set (b64encode bs)"
proof
  assume "CHR '','' \<in> set (b64encode bs)"
  then have "CHR '','' = CHR ''='' \<or> (\<exists>i<64. CHR '','' = b64char i)"
    by (rule b64encode_chars)
  then obtain i where "i < 64" "CHR '','' = b64char i"
    by auto
  then show False using b64value_b64char [of i] b64value_comma by simp
qed

lemma split_dataURL:
  assumes "plainMediaType m"
  shows "split (CHR '','') (''data:'' @ m @ '';base64,'' @ b64encode bs)
           = [''data:'' @ m @ '';base64'', b64encode bs]"
proof -
  have "CHR '','' \<notin> set m"
    using plainMediaType_chars(4) [OF assms] by blast
  then have "CHR '','' \<notin> set (''data:'' @ m @ '';base64'')"
    by simp
  then have "split (CHR '','') ((''data:'' @ m @ '';base64'') @ CHR '','' # b64encode bs)
               = (''data:'' @ m @ '';base64'') # split (CHR '','') (b64encode bs)"
    by (rule split_at_sep)
  then show ?thesis by (simp add: split_no_sep b64encode_no_comma)
qed

lemma mimeMatch_dataURL:
  assumes "plainMediaType m"
  shows "mimeMatch (''data:'' @ m @ '';base64'') = Some m"
proof -
  have "lazyUntilSemicolon (m @ CHR '';'' # ''base64'') = Some m"
  proof (rule lazyUntilSemicolon_prefix, intro ballI conjI)
    fix c assume c: "c \<in> set m"
    show "c \<noteq> CHR '';''" by (rule plainMediaType_chars(6) [OF assms c])
    show "(of_char c :: nat) \<noteq> 10" "(of_char c :: nat) \<noteq> 13"
      using plainMediaType_chars(1) [OF assms c] by simp_all
  qed
  then show ?thesis by simp
qed

lemma newFile_plain:
  assumes "plainMediaType m"
  shows "newFile bs nm m = \<lparr>fileName = nm, fileType = m, fileBytes = bs, readable = True\<rparr>"
proof -
  have "\<not> list_ex (\<lambda>c. (of_char c :: nat) < 32 \<or> 126 < (of_char c :: nat)) m"
    unfolding list_ex_iff
  proof
    assume "\<exists>c \<in> set m. (of_char c :: nat) < 32 \<or> 126 < (of_char c :: nat)"
    then obtain c where c: "c \<in> set m"
      and "(of_char c :: nat) < 32 \<or> 126 < (of_char c :: nat)" by blast
    then show False
      using plainMediaType_chars(1) [OF assms c] plainMediaType_chars(2) [OF assms c] by simp
  qed
  moreover have "map asciiLower m = m"
  proof (rule map_idI)
    fix c assume "c \<in> set m"
    then show "asciiLower c = c"
      using plainMediaType_chars(3) [OF assms, of c] by (auto simp: asciiLower_def Let_def)
  qed
  ultimately show ?thesis by (simp add: newFile_def)
qed


lemma dataURL_roundtrip:
  assumes "plainMediaType m"
  shows "dataURLtoFile (''data:'' @ m @ '';base64,'' @ b64encode bs) nm
           = Inr \<lparr>fileName = nm, fileType = m, fileBytes = bs, readable = True\<rparr>
       \<and> fileToBase64 \<lparr>fileName = nm, fileType = m, fileBytes = bs, readable = True\<rparr>
           = Resolved (Some (b64encode bs), m)"
proof
  define meta where "meta = ''data:'' @ m @ '';base64''"
  define bstr where "bstr = map (\<lambda>w. char_of (unat w)) bs"
  have sp: "split (CHR '','') (''data:'' @ m @ '';base64,'' @ b64encode bs) = [meta, b64encode bs]"
    unfolding meta_def by (rule split_dataURL [OF assms])
  have el: "element [meta, b64encode bs] 0 = Some meta"
           "element [meta, b64encode bs] 1 = Some (b64encode bs)"
    by (simp_all add: element_def)
  have mm: "mimeMatch meta = Some m"
    unfolding meta_def by (rule mimeMatch_dataURL [OF assms])
  have ab: "atob (b64encode bs) = Inr bstr"
    unfolding bstr_def by (rule atob_b64encode)
  have "map (\<lambda>c. (of_nat (of_char c) :: 8 word)) bstr = map (\<lambda>w. w) bs"
    unfolding bstr_def map_map comp_def by (simp only: byte_of_char_of)
  then have fb: "fillBytes (length bstr) bstr (replicate (length bstr) 0) = bs"
    using fillBytes_all [of bstr] by simp
  show "dataURLtoFile (''data:'' @ m @ '';base64,'' @ b64encode bs) nm
           = Inr \<lparr>fileName = nm, fileType = m, fileBytes = bs, readable = True\<rparr>"
    unfolding dataURLtoFile_def sp Let_def el
    by (simp only: mm ab fb option.case sum.case newFile_plain [OF assms])
next
  define meta where "meta = ''data:'' @ m @ '';base64''"
  define t where "t = m @ '';base64''"
  have m: "fileType \<lparr>fileName = nm, fileType = m, fileBytes = bs, readable = True\<rparr> \<noteq> []"
    using assms by (simp add: plainMediaType_def)
  have c: "CHR '':'' \<notin> set m" "CHR '';'' \<notin> set m"
    using plainMediaType_chars(5,6) [OF assms] by auto
  have rd: "readAsDataURL \<lparr>fileName = nm, fileType = m, fileBytes = bs, readable = True\<rparr>
              = Some (''data:'' @ m @ '';base64,'' @ b64encode bs)"
    unfolding readAsDataURL_def using m by simp
  have sp: "split (CHR '','') (''data:'' @ m @ '';base64,'' @ b64encode bs) = [meta, b64encode bs]"
    unfolding meta_def by (rule split_dataURL [OF assms])
  have "split (CHR '':'') (''data'' @ CHR '':'' # t) = ''data'' # split (CHR '':'') t"
    by (rule split_at_sep) simp
  moreover have "split (CHR '':'') t = [t]"
    unfolding t_def using c(1) by (intro split_no_sep) simp
  moreover have "meta = ''data'' @ CHR '':'' # t"
    unfolding meta_def t_def by simp
  ultimately have s1: "split (CHR '':'') meta = [''data'', t]" by simp
  have "split (CHR '';'') (m @ CHR '';'' # ''base64'') = m # split (CHR '';'') ''base64''"
    by (rule split_at_sep [OF c(2)])
  then have s2: "split (CHR '';'') t = [m, ''base64'']"
    unfolding t_def by simp
  have el: "element [meta, b64encode bs] 0 = Some meta"
           "element [meta, b64encode bs] 1 = Some (b64encode bs)"
           "element [''data'', t] 1 = Some t"
           "element [m, ''base64''] 0 = Some m"
    by (simp_all add: element_def)
  show "fileToBase64 \<lparr>fileName = nm, fileType = m, fileBytes = bs, readable = True\<rparr>
           = Resolved (Some (b64encode bs), m)"
    unfolding fileToBase64_def rd
    by (simp only: option.case sp Let_def el s1 s2)
qed

lemma lazyUntilSemicolon_Some:
  "lazyUntilSemicolon cs = Some m \<Longrightarrow>
     \<exists>post. cs = m @ CHR '';'' # post
            \<and> (\<forall>c \<in> set m. (of_char c :: nat) \<noteq> 10 \<and> (of_char c :: nat) \<noteq> 13)"
proof (induction cs arbitrary: m)
  case Nil
  then show ?case by simp
next
  case (Cons c cs)
  show ?case
  proof (cases "c = CHR '';''")
    case True
    with Cons.prems show ?thesis by auto
  next
    case False
    with Cons.prems obtain m' where m': "lazyUntilSemicolon cs = Some m'" "m = c # m'"
      and nl: "(of_char c :: nat) \<noteq> 10" "(of_char c :: nat) \<noteq> 13"
      by (auto split: if_splits)
    from Cons.IH [OF m'(1)] obtain post where "cs = m' @ CHR '';'' # post"
      and "\<forall>c \<in> set m'. (of_char c :: nat) \<noteq> 10 \<and> (of_char c :: nat) \<noteq> 13" by blast
    with m'(2) nl show ?thesis by auto
  qed
qed

lemma lazyUntilSemicolon_found:
  "\<forall>c \<in> set mid. (of_char c :: nat) \<noteq> 10 \<and> (of_char c :: nat) \<noteq> 13 \<Longrightarrow>
     lazyUntilSemicolon (mid @ CHR '';'' # post) \<noteq> None"
  by (induction mid) auto

lemma mimeMatch_Some:
  "mimeMatch s = Some m \<Longrightarrow>
     \<exists>pre post. s = pre @ CHR '':'' # m @ CHR '';'' # post
        \<and> (\<forall>c \<in> set m. (of_char c :: nat) \<noteq> 10 \<and> (of_char c :: nat) \<noteq> 13)"
proof (induction s)
  case Nil
  then show ?case by simp
next
  case (Cons c cs)
  show ?case
  proof (cases "c = CHR '':'' \<and> lazyUntilSemicolon cs \<noteq> None")
    case True
    with Cons.prems have "lazyUntilSemicolon cs = Some m" by auto
    from lazyUntilSemicolon_Some [OF this] True show ?thesis
      by (metis append_Nil)
  next
    case False
    with Cons.prems have "mimeMatch cs = Some m" by (auto split: if_splits option.splits)
    from Cons.IH [OF this] show ?thesis by (metis append_Cons)
  qed
qed

lemma mimeMatch_found:
  "\<forall>c \<in> set mid. (of_char c :: nat) \<noteq> 10 \<and> (of_char c :: nat) \<noteq> 13 \<Longrightarrow>
     mimeMatch (pre @ CHR '':'' # mid @ CHR '';'' # post) \<noteq> None"
proof (induction pre)
  case Nil
  then show ?case using lazyUntilSemicolon_found [of mid post] by auto
next
  case (Cons c pre)
  then show ?case by (auto split: option.splits)
qed

lemma mimeMatch_None_iff:
  "mimeMatch s = None \<longleftrightarrow>
     \<not> (\<exists>pre mid post. s = pre @ CHR '':'' # mid @ CHR '';'' # post
            \<and> (\<forall>c \<in> set mid. (of_char c :: nat) \<noteq> 10 \<and> (of_char c :: nat) \<noteq> 13))"
proof
  assume "mimeMatch s = None"
  then show "\<not> (\<exists>pre mid post. s = pre @ CHR '':'' # mid @ CHR '';'' # post
            \<and> (\<forall>c \<in> set mid. (of_char c :: nat) \<noteq> 10 \<and> (of_char c :: nat) \<noteq> 13))"
    using mimeMatch_found by blast
next
  assume n: "\<not> (\<exists>pre mid post. s = pre @ CHR '':'' # mid @ CHR '';'' # post
            \<and> (\<forall>c \<in> set mid. (of_char c :: nat) \<noteq> 10 \<and> (of_char c :: nat) \<noteq> 13))"
  show "mimeMatch s = None"
  proof (rule ccontr)
    assume "mimeMatch s \<noteq> None"
    then obtain m where "mimeMatch s = Some m" by auto
    from mimeMatch_Some [OF this] n show False by blast
  qed
qed

lemma dataURLtoFile_invalid:
  "element (split (CHR '','') u) 0 = Some meta \<Longrightarrow> mimeMatch meta = None \<Longrightarrow>
     dataURLtoFile u nm = Inl (NewError ''Invalid data URL'')"
  by (simp add: dataURLtoFile_def)


text \<open>
  C7, as the code has it. For every data URL 'data:<mime>;base64,<payload>' whose <mime>
  is a non-empty media type in lower-case printable ASCII without comma, colon or
  semicolon, and whose <payload> is the padded base64 encoding of a byte sequence,
  dataURLtoFile produces a File whose type is <mime> and whose bytes are the decoding of
  <payload>, and fileToBase64 of that File gives back exactly <payload> and <mime>.
  dataURLtoFile throws 'Invalid data URL' when the text before the first comma has no colon
  that is followed, with no line terminator in between, by a semicolon.
\<close>

theorem dataURLtoFile_fileToBase64_roundtrip:
  "(plainMediaType m \<longrightarrow>
      dataURLtoFile (''data:'' @ m @ '';base64,'' @ b64encode bs) nm
        = Inr \<lparr>fileName = nm, fileType = m, fileBytes = bs, readable = True\<rparr>
      \<and> fileToBase64 \<lparr>fileName = nm, fileType = m, fileBytes = bs, readable = True\<rparr>
        = Resolved (Some (b64encode bs), m))
   \<and> (element (split (CHR '','') u) 0 = Some meta
        \<and> \<not> (\<exists>pre mime post. meta = pre @ CHR '':'' # mime @ CHR '';'' # post
               \<and> (\<forall>c \<in> set mime. (of_char c :: nat) \<noteq> 10 \<and> (of_char c :: nat) \<noteq> 13))
      \<longrightarrow> dataURLtoFile u nm = Inl (NewError ''Invalid data URL''))"
proof (intro conjI impI)
  assume "plainMediaType m"
  from dataURL_roundtrip [OF this]
  show "dataURLtoFile (''data:'' @ m @ '';base64,'' @ b64encode bs) nm
          = Inr \<lparr>fileName = nm, fileType = m, fileBytes = bs, readable = True\<rparr>"
    and "fileToBase64 \<lparr>fileName = nm, fileType = m, fileBytes = bs, readable = True\<rparr>
          = Resolved (Some (b64encode bs), m)"
    by simp_all
next
  assume a: "element (split (CHR '','') u) 0 = Some meta
        \<and> \<not> (\<exists>pre mime post. meta = pre @ CHR '':'' # mime @ CHR '';'' # post
               \<and> (\<forall>c \<in> set mime. (of_char c :: nat) \<noteq> 10 \<and> (of_char c :: nat) \<noteq> 13))"
  then have "mimeMatch meta = None"
    using mimeMatch_None_iff [of meta] by blast
  with a show "dataURLtoFile u nm = Inl (NewError ''Invalid data URL'')"
    using dataURLtoFile_invalid [of u meta nm] by blast
qed

theorem dataURLtoFile_fileToBase64_roundtrip_witness:
  "plainMediaType ''image/png''
   \<and> dataURLtoFile ''data:image/png;base64,QUJD'' ''edited-image.png''
       = Inr \<lparr>fileName = ''edited-image.png'', fileType = ''image/png'',
              fileBytes = [65, 66, 67], readable = True\<rparr>
   \<and> fileToBase64 \<lparr>fileName = ''edited-image.png'', fileType = ''image/png'',
                     fileBytes = [65, 66, 67], readable = True\<rparr>
       = Resolved (Some ''QUJD'', ''image/png'')
   \<and> element (split (CHR '','') ''image/png,QUJD'') 0 = Some ''image/png''
   \<and> dataURLtoFile ''image/png,QUJD'' ''edited-image.png'' = Inl (NewError ''Invalid data URL'')"
proof -
  have pm: "plainMediaType ''image/png''"
    by (simp add: plainMediaType_def)
  have enc: "b64encode [65, 66, 67] = ''QUJD''"
    by code_simp
  have el: "element (split (CHR '','') ''image/png,QUJD'') 0 = Some ''image/png''"
    by (simp add: element_def)
  have np: "\<not> (\<exists>pre mime post. ''image/png'' = pre @ CHR '':'' # mime @ CHR '';'' # post
               \<and> (\<forall>c \<in> set mime. (of_char c :: nat) \<noteq> 10 \<and> (of_char c :: nat) \<noteq> 13))"
  proof
    assume "\<exists>pre mime post. ''image/png'' = pre @ CHR '':'' # mime @ CHR '';'' # post
               \<and> (\<forall>c \<in> set mime. (of_char c :: nat) \<noteq> 10 \<and> (of_char c :: nat) \<noteq> 13)"
    then obtain pre mime post where "''image/png'' = pre @ CHR '':'' # mime @ CHR '';'' # post"
      by blast
    then have "set ''image/png'' = set (pre @ CHR '':'' # mime @ CHR '';'' # post)"
      by (rule arg_cong)
    then have "CHR '':'' \<in> set ''image/png''"
      by (simp only: set_append list.set) blast
    then show False by simp
  qed
  from dataURLtoFile_fileToBase64_roundtrip
         [of "''image/png''" "[65, 66, 67]" "''edited-image.png''" "''image/png,QUJD''" "''image/png''"]
       pm el np
  show ?thesis by (simp add: enc)
qed

text \<open>
  The claim C7 as stated fails for a payload that is not in the padded form: \<^verbatim>\<open>atob\<close>
  accepts the unpadded \<^verbatim>\<open>QQ\<close>, and reading the file back gives \<^verbatim>\<open>QQ==\<close>, not the
  payload.
\<close>

theorem dataURL_roundtrip_unpadded_counterexample:
  "dataURLtoFile ''data:image/png;base64,QQ'' ''edited-image.png''
     = Inr \<lparr>fileName = ''edited-image.png'', fileType = ''image/png'', fileBytes = [65],
            readable = True\<rparr>
   \<and> fileToBase64 \<lparr>fileName = ''edited-image.png'', fileType = ''image/png'',
                     fileBytes = [65], readable = True\<rparr>
       = Resolved (Some ''QQ=='', ''image/png'')
   \<and> ''QQ=='' \<noteq> ''QQ''"
  by code_simp

section \<open>Upload\<close>

lemma uploaded_eq:
  "uploaded = initialApp\<lparr>originalImage := Some (pngFile [65, 66, 67]), status := Masking\<rparr>"
  by (simp add: uploaded_def handleImageUpload_def fileSize_def pngFile_def initialApp_def)

lemma prompted_eq:
  "prompted = \<lparr>status = Masking, originalImage = Some (pngFile [65, 66, 67]),
      maskImage = Some ''data:image/png;base64,QQ=='', prompt = ''a red sofa'',
      generatedImage = None, error = None, brushSize = 40, clearCanvasCounter = 0\<rparr>"
  by (simp add: prompted_def masked_def uploaded_eq setPrompt_def handleMaskChange_def
        initialApp_def)

text \<open>
  C9. For every uploaded file whose size exceeds 4 * 1024 * 1024 bytes, handleImageUpload
  sets the error message 'Image size should be less than 4MB.' and changes nothing else:
  the state afterwards is the state before with only the error replaced, so
  originalImage, status, maskImage, generatedImage and prompt keep their values.
\<close>

theorem handleImageUpload_too_large:
  assumes "fileSize f > 4 * 1024 * 1024"
  shows "handleImageUpload (Some f) a
           = a\<lparr>error := Some ''Image size should be less than 4MB.''\<rparr>
       \<and> originalImage (handleImageUpload (Some f) a) = originalImage a
       \<and> status (handleImageUpload (Some f) a) = status a
       \<and> maskImage (handleImageUpload (Some f) a) = maskImage a
       \<and> generatedImage (handleImageUpload (Some f) a) = generatedImage a
       \<and> prompt (handleImageUpload (Some f) a) = prompt a"
  using assms by (simp add: handleImageUpload_def)

theorem handleImageUpload_too_large_witness:
  "fileSize (pngFile (replicate 4194305 0)) > 4 * 1024 * 1024
   \<and> handleImageUpload (Some (pngFile (replicate 4194305 0))) prompted
       = prompted\<lparr>error := Some ''Image size should be less than 4MB.''\<rparr>
   \<and> status (handleImageUpload (Some (pngFile (replicate 4194305 0))) prompted) = Masking"
proof -
  have big: "fileSize (pngFile (replicate 4194305 0)) > 4 * 1024 * 1024"
    by (simp add: fileSize_def pngFile_def)
  have "status prompted = Masking"
    by (simp add: prompted_eq)
  with big handleImageUpload_too_large [OF big, of prompted] show ?thesis by simp
qed

section \<open>Generating\<close>

text \<open>
  C8. Whenever handleGenerate is invoked with originalImage null, maskImage null or
  empty, or a prompt that is blank after trimming, it issues no request to the
  image-generation service, sets the error message 'Please upload an image, mask an area,
  and enter a prompt.', and leaves status, originalImage, maskImage, prompt and
  generatedImage unchanged.
\<close>

theorem handleGenerate_incomplete_input:
  assumes "originalImage a = None \<or> maskImage a = None \<or> maskImage a = Some []
             \<or> trim (prompt a) = []"
  shows "handleGenerate ep a n
           = (a\<lparr>error := Some ''Please upload an image, mask an area, and enter a prompt.''\<rparr>, n)
       \<and> issued (snd (handleGenerate ep a n)) = issued n
       \<and> remote (snd (handleGenerate ep a n)) = remote n
       \<and> status (fst (handleGenerate ep a n)) = status a
       \<and> originalImage (fst (handleGenerate ep a n)) = originalImage a
       \<and> maskImage (fst (handleGenerate ep a n)) = maskImage a
       \<and> prompt (fst (handleGenerate ep a n)) = prompt a
       \<and> generatedImage (fst (handleGenerate ep a n)) = generatedImage a"
  using assms by (auto simp: handleGenerate_def split: option.splits)

theorem handleGenerate_incomplete_input_witness:
  "handleGenerate (answering (imageResponse [] None)) initialApp idleNet
     = (initialApp\<lparr>error := Some ''Please upload an image, mask an area, and enter a prompt.''\<rparr>,
        idleNet)
   \<and> handleGenerate (answering (imageResponse [] None)) uploaded idleNet
     = (uploaded\<lparr>error := Some ''Please upload an image, mask an area, and enter a prompt.''\<rparr>,
        idleNet)
   \<and> handleGenerate (answering (imageResponse [] None)) (handleMaskChange [] prompted) idleNet
     = ((handleMaskChange [] prompted)
          \<lparr>error := Some ''Please upload an image, mask an area, and enter a prompt.''\<rparr>, idleNet)
   \<and> handleGenerate (answering (imageResponse [] None)) (setPrompt ''   '' prompted) idleNet
     = ((setPrompt ''   '' prompted)
          \<lparr>error := Some ''Please upload an image, mask an area, and enter a prompt.''\<rparr>, idleNet)"
proof -
  have h1: "originalImage initialApp = None"
    by (simp add: initialApp_def)
  have h2: "maskImage uploaded = None"
    by (simp add: uploaded_eq initialApp_def)
  have h3: "maskImage (handleMaskChange [] prompted) = Some []"
    by (simp add: handleMaskChange_def)
  have h4: "trim (prompt (setPrompt ''   '' prompted)) = []"
    by (simp add: setPrompt_def trim_def isWhiteSpace_def)
  show ?thesis
    using handleGenerate_incomplete_input
            [of initialApp "answering (imageResponse [] None)" idleNet]
          handleGenerate_incomplete_input
            [of uploaded "answering (imageResponse [] None)" idleNet]
          handleGenerate_incomplete_input
            [of "handleMaskChange [] prompted" "answering (imageResponse [] None)" idleNet]
          handleGenerate_incomplete_input
            [of "setPrompt ''   '' prompted" "answering (imageResponse [] None)" idleNet]
          h1 h2 h3 h4
    by simp
qed

section \<open>The status of the application\<close>

lemma generateFailed_error:
  "\<exists>msg. error (generateFailed e a) = Some msg \<and> msg \<noteq> []"
  by (cases "message e") (auto simp: generateFailed_def truthy_def)

lemma handleGenerate_valid:
  assumes "originalImage a = Some img" "maskImage a = Some url" "url \<noteq> []"
    "trim (prompt a) \<noteq> []"
  shows "fst (handleGenerate ep a n) =
     (case fst (generateAttempt ep img url (prompt a) n) of
        Resolved result \<Rightarrow>
          (generateStarted a)\<lparr>generatedImage := Some (''data:image/png;base64,'' @ result),
                               status := Done\<rparr>
      | Rejected e \<Rightarrow> generateFailed e (generateStarted a)
      | Pending \<Rightarrow> generateStarted a)"
proof (cases "generateAttempt ep img url (prompt a) n")
  case (Pair r n')
  with assms show ?thesis
    by (cases r) (simp_all add: handleGenerate_def)
qed

lemma fileToBase64_png:
  "fileToBase64 (pngFile [65, 66, 67]) = Resolved (Some ''QUJD'', ''image/png'')"
  by code_simp

lemma generateAttempt_png:
  "fst (generateAttempt ep (pngFile [65, 66, 67]) ''data:image/png;base64,QQ=='' pr n)
     = fst (generateInpaintedImage ep (Some ''QUJD'') ''image/png'' (Some ''QQ=='') pr n)"
  by (simp add: generateAttempt_def fileToBase64_png element_def)

lemma generateAttempt_answering:
  "fst (generateAttempt (answering pngResponse) (pngFile [65, 66, 67])
          ''data:image/png;base64,QQ=='' pr n) = Resolved ''iVBORw0KGgo=''"
  by (simp add: generateAttempt_png generateInpaintedImage_fst answering_def pngResponse_def
        imageData_def imagePart_def imageResponse_def element_def inlinePart_def)

lemma generateAttempt_failing:
  "fst (generateAttempt (failing e) (pngFile [65, 66, 67])
          ''data:image/png;base64,QQ=='' pr n) = Rejected e"
  by (simp add: generateAttempt_png generateInpaintedImage_fst failing_def)

lemma finished_eq: "finished = \<lparr>status = Done, originalImage = Some (pngFile [65, 66, 67]),
      maskImage = Some ''data:image/png;base64,QQ=='', prompt = ''a red sofa'',
      generatedImage = Some ''data:image/png;base64,iVBORw0KGgo='', error = None,
      brushSize = 40, clearCanvasCounter = 0\<rparr>"
  unfolding finished_def
  by (subst handleGenerate_valid [of prompted "pngFile [65, 66, 67]" "''data:image/png;base64,QQ==''"])
     (simp_all add: prompted_eq generateAttempt_answering generateStarted_def trim_def isWhiteSpace_def)

text \<open>
  C4, as the code has it. A successful upload moves status from Idle to Masking;
  handleGenerate with an image, a mask and a non-blank prompt moves status to Loading
  (and it stays there while no answer comes); a successful generation moves status to Done
  and stores the result image; a failed generation moves status to Error and stores an
  error message; the generated image is displayed only when status is Done. The status
  does not move only forward along the pipeline: handleStartOver moves it from any status
  back to Idle, and handleUseResultAsInput moves it from Done back to Masking.
\<close>

theorem status_transitions:
  "(status a = Idle \<and> fileSize f \<le> 4 * 1024 * 1024
      \<longrightarrow> status (handleImageUpload (Some f) a) = Masking
          \<and> originalImage (handleImageUpload (Some f) a) = Some f)
   \<and> (originalImage a = Some img \<and> maskImage a = Some url \<and> url \<noteq> [] \<and> trim (prompt a) \<noteq> []
      \<longrightarrow> status (generateStarted a) = Loading
          \<and> (fst (generateAttempt ep img url (prompt a) n) = Pending
                \<longrightarrow> fst (handleGenerate ep a n) = generateStarted a)
          \<and> (\<forall>result. fst (generateAttempt ep img url (prompt a) n) = Resolved result
                \<longrightarrow> status (fst (handleGenerate ep a n)) = Done
                    \<and> generatedImage (fst (handleGenerate ep a n))
                        = Some (''data:image/png;base64,'' @ result))
          \<and> (\<forall>e. fst (generateAttempt ep img url (prompt a) n) = Rejected e
                \<longrightarrow> status (fst (handleGenerate ep a n)) = Error
                    \<and> (\<exists>msg. error (fst (handleGenerate ep a n)) = Some msg \<and> msg \<noteq> [])))
   \<and> (showsGeneratedImage a \<longrightarrow> status a = Done)
   \<and> status (handleStartOver a) = Idle
   \<and> (\<forall>a'. truthy (generatedImage a) \<and> handleUseResultAsInput a = Inr a'
         \<longrightarrow> status a' = Masking)"
proof (intro conjI impI allI)
  assume "status a = Idle \<and> fileSize f \<le> 4 * 1024 * 1024"
  then show "status (handleImageUpload (Some f) a) = Masking"
    and "originalImage (handleImageUpload (Some f) a) = Some f"
    by (simp_all add: handleImageUpload_def)
next
  assume v: "originalImage a = Some img \<and> maskImage a = Some url \<and> url \<noteq> []
               \<and> trim (prompt a) \<noteq> []"
  show "status (generateStarted a) = Loading"
    by (simp add: generateStarted_def)
  show "fst (handleGenerate ep a n) = generateStarted a"
    if "fst (generateAttempt ep img url (prompt a) n) = Pending"
    using v that by (simp add: handleGenerate_valid [of a img url])
  show "status (fst (handleGenerate ep a n)) = Done"
    and "generatedImage (fst (handleGenerate ep a n)) = Some (''data:image/png;base64,'' @ result)"
    if "fst (generateAttempt ep img url (prompt a) n) = Resolved result" for result
    using v that by (simp_all add: handleGenerate_valid [of a img url])
  show "status (fst (handleGenerate ep a n)) = Error"
    and "\<exists>msg. error (fst (handleGenerate ep a n)) = Some msg \<and> msg \<noteq> []"
    if "fst (generateAttempt ep img url (prompt a) n) = Rejected e" for e
    using v that generateFailed_error [of e "generateStarted a"]
    by (simp_all add: handleGenerate_valid [of a img url] generateFailed_def)
next
  assume "showsGeneratedImage a"
  then show "status a = Done" by (simp add: showsGeneratedImage_def)
next
  show "status (handleStartOver a) = Idle" by (simp add: handleStartOver_def)
next
  fix a'
  assume "truthy (generatedImage a) \<and> handleUseResultAsInput a = Inr a'"
  then show "status a' = Masking"
    by (auto simp: handleUseResultAsInput_def truthy_def split: option.splits sum.splits if_splits)
qed

lemma dataURLtoFile_png:
  "dataURLtoFile ''data:image/png;base64,iVBORw0KGgo='' ''edited-image.png''
     = Inr \<lparr>fileName = ''edited-image.png'', fileType = ''image/png'',
            fileBytes = [137, 80, 78, 71, 13, 10, 26, 10], readable = True\<rparr>"
  by code_simp

lemma handleUseResultAsInput_finished:
  "handleUseResultAsInput finished
     = Inr \<lparr>status = Masking,
            originalImage = Some \<lparr>fileName = ''edited-image.png'', fileType = ''image/png'',
              fileBytes = [137, 80, 78, 71, 13, 10, 26, 10], readable = True\<rparr>,
            maskImage = None, prompt = [], generatedImage = None, error = None,
            brushSize = 40, clearCanvasCounter = 1\<rparr>"
  by (simp add: handleUseResultAsInput_def finished_eq dataURLtoFile_png)

theorem status_transitions_witness:
  "status initialApp = Idle
   \<and> status (handleImageUpload (Some (pngFile [65, 66, 67])) initialApp) = Masking
   \<and> status (generateStarted prompted) = Loading
   \<and> status (fst (handleGenerate (answering pngResponse) prompted idleNet)) = Done
   \<and> generatedImage (fst (handleGenerate (answering pngResponse) prompted idleNet))
       = Some ''data:image/png;base64,iVBORw0KGgo=''
   \<and> status (fst (handleGenerate (failing (NewError ''quota exceeded'')) prompted idleNet)) = Error
   \<and> showsGeneratedImage finished
   \<and> status finished = Done
   \<and> status (handleStartOver finished) = Idle
   \<and> status (case handleUseResultAsInput finished of Inr a' \<Rightarrow> a' | Inl e \<Rightarrow> finished) = Masking"
proof -
  have up: "status initialApp = Idle \<and> fileSize (pngFile [65, 66, 67]) \<le> 4 * 1024 * 1024"
    by (simp add: initialApp_def fileSize_def pngFile_def)
  have v: "originalImage prompted = Some (pngFile [65, 66, 67])
           \<and> maskImage prompted = Some ''data:image/png;base64,QQ==''
           \<and> ''data:image/png;base64,QQ=='' \<noteq> [] \<and> trim (prompt prompted) \<noteq> []"
    by (simp add: prompted_eq trim_def isWhiteSpace_def)
  have sh: "showsGeneratedImage finished"
    by (simp add: showsGeneratedImage_def showsWorkspace_def finished_eq truthy_def)
  have tr: "truthy (generatedImage finished)"
    by (simp add: finished_eq truthy_def)
  note t1 = status_transitions [where a = initialApp and f = "pngFile [65, 66, 67]"]
  note t2 = status_transitions [where a = prompted and img = "pngFile [65, 66, 67]"
      and url = "''data:image/png;base64,QQ==''" and ep = "answering pngResponse" and n = idleNet]
  note t3 = status_transitions [where a = prompted and img = "pngFile [65, 66, 67]"
      and url = "''data:image/png;base64,QQ==''" and ep = "failing (NewError ''quota exceeded'')"
      and n = idleNet]
  note t4 = status_transitions [where a = finished]
  have c1: "status (handleImageUpload (Some (pngFile [65, 66, 67])) initialApp) = Masking"
    using t1 up by blast
  have c2: "status (generateStarted prompted) = Loading"
    using t2 v by blast
  have c3: "status (fst (handleGenerate (answering pngResponse) prompted idleNet)) = Done
            \<and> generatedImage (fst (handleGenerate (answering pngResponse) prompted idleNet))
                = Some (''data:image/png;base64,'' @ ''iVBORw0KGgo='')"
    using t2 v generateAttempt_answering [of "prompt prompted" idleNet] by blast
  have c4: "status (fst (handleGenerate (failing (NewError ''quota exceeded'')) prompted idleNet))
              = Error"
    using t3 v generateAttempt_failing [of "NewError ''quota exceeded''" "prompt prompted" idleNet]
    by blast
  have c5: "status finished = Done"
    using t4 sh by blast
  have c6: "status (handleStartOver finished) = Idle"
    using t4 by blast
  have c7: "status (case handleUseResultAsInput finished of Inr a' \<Rightarrow> a' | Inl e \<Rightarrow> finished)
              = Masking"
    using t4 tr handleUseResultAsInput_finished by simp
  from up c1 c2 c3 c4 sh c5 c6 c7 show ?thesis by simp
qed

text \<open>
  The claim C4 as stated fails: from the status Done, reached by a successful generation,
  handleStartOver moves the status to Idle, which is no move of the pipeline.
\<close>

theorem status_moves_back_counterexample: "status finished = Done \<and> status (handleStartOver finished) = Idle
   \<and> status (handleStartOver finished) \<noteq> status finished
   \<and> \<not> pipelineMove (status finished) (status (handleStartOver finished))"
  by (simp add: finished_eq handleStartOver_def pipelineMove_def)

section \<open>The mask buffer and the pointer\<close>

lemma startDrawing_frame:
  "imageCanvas (startDrawing ev s) = imageCanvas s"
  "drawingCanvas (startDrawing ev s) = drawingCanvas s"
  "reported (startDrawing ev s) = reported s"
  by (simp_all add: startDrawing_def split: option.splits)

lemma stopDrawing_frame:
  "imageCanvas (stopDrawing t s) = imageCanvas s"
  "drawingCanvas (stopDrawing t s) = drawingCanvas s"
  "\<not> isDrawing (stopDrawing t s)"
  by (simp_all add: stopDrawing_def Let_def split: option.splits)

lemma draw_frame:
  "imageCanvas (draw p ev s) = imageCanvas s"
  "isDrawing (draw p ev s) = isDrawing s"
  "reported (draw p ev s) = reported s"
  "\<not> isDrawing s \<Longrightarrow> draw p ev s = s"
  by (simp_all add: draw_def Let_def split: option.splits prod.splits)

lemma clearCounterEffect_frame:
  "imageCanvas (clearCounterEffect p s) = imageCanvas s"
  "isDrawing (clearCounterEffect p s) = isDrawing s"
  by (simp_all add: clearCounterEffect_def clearCanvas_def split: option.splits)

lemma drawImage_isDrawing:
  "isDrawing (drawImage img s) = isDrawing s"
  by (simp add: drawImage_def Let_def split: option.splits prod.splits)

lemma draw_stroke:
  assumes "isDrawing s" "lastPoint s = Some lp" "drawingCanvas s = Some c" "has2d c"
    "0 < brushSizeProp p"
  shows "draw p (cx, cy) s
     = s\<lparr>drawingCanvas := Some (c\<lparr>strokeStyle := brushColor p, lineWidth := brushSizeProp p,
                                   lineCap := ''round'', lineJoin := ''round'',
                                   bitmap := bitmap c
                                     @ [Segment (brushColor p) (brushSizeProp p) ''round'' ''round''
                                          lp (cx - rectLeft c, cy - rectTop c)]\<rparr>),
          lastPoint := Some (cx - rectLeft c, cy - rectTop c)\<rparr>"
  using assms
  by (simp add: draw_def getCoordinates_def setLineWidth_def strokeLine_def Let_def)

text \<open>
  C1, as the code has it. For every state of the masking canvas and every event: a stroke
  event changes the mask (stroke-layer) pixel buffer only while isDrawing is set, and
  isDrawing is set by startDrawing (mouse down) and reset by stopDrawing (mouse up or
  mouse leave) only; besides that the buffer is changed only by a run of the clearCounter
  effect (clearCanvas) and by the load of the image (drawImage sets the size of the
  canvas). When stopDrawing ends a stroke, the buffer is serialized to a data URL and
  reported via onMaskChange, and the buffer is left as it is.
\<close>

theorem mask_buffer_mutation:
  "(maskBuffer (step t p ev s) \<noteq> maskBuffer s \<longrightarrow>
      ((\<exists>cx cy. ev = MouseMove cx cy) \<and> isDrawing s \<and> isDrawing (step t p ev s))
      \<or> ev = ClearCounterChanged \<or> (\<exists>img. ev = ImageLoaded img))
   \<and> (isDrawing (step t p ev s) \<noteq> isDrawing s \<longrightarrow>
        (isDrawing (step t p ev s) \<and> (\<exists>cx cy. ev = MouseDown cx cy))
        \<or> (\<not> isDrawing (step t p ev s) \<and> (ev = MouseUp \<or> ev = MouseLeave)))
   \<and> ((ev = MouseUp \<or> ev = MouseLeave) \<and> isDrawing s \<and> drawingCanvas s = Some c \<longrightarrow>
        reported (step t p ev s) = reported s @ [t c]
        \<and> \<not> isDrawing (step t p ev s)
        \<and> maskBuffer (step t p ev s) = maskBuffer s)"
proof (intro conjI impI)
  assume "maskBuffer (step t p ev s) \<noteq> maskBuffer s"
  then show "((\<exists>cx cy. ev = MouseMove cx cy) \<and> isDrawing s \<and> isDrawing (step t p ev s))
      \<or> ev = ClearCounterChanged \<or> (\<exists>img. ev = ImageLoaded img)"
    by (cases ev; cases "isDrawing s")
       (auto simp: maskBuffer_def startDrawing_frame stopDrawing_frame draw_frame)
next
  assume "isDrawing (step t p ev s) \<noteq> isDrawing s"
  then show "(isDrawing (step t p ev s) \<and> (\<exists>cx cy. ev = MouseDown cx cy))
        \<or> (\<not> isDrawing (step t p ev s) \<and> (ev = MouseUp \<or> ev = MouseLeave))"
    by (cases ev)
       (auto simp: draw_frame clearCounterEffect_frame drawImage_isDrawing stopDrawing_frame
             startDrawing_def split: option.splits)
next
  assume a: "(ev = MouseUp \<or> ev = MouseLeave) \<and> isDrawing s \<and> drawingCanvas s = Some c"
  then have e: "step t p ev s = stopDrawing t s" by auto
  from a show "reported (step t p ev s) = reported s @ [t c]"
    unfolding e by (simp add: stopDrawing_def)
  show "\<not> isDrawing (step t p ev s)"
    unfolding e by (rule stopDrawing_frame)
  show "maskBuffer (step t p ev s) = maskBuffer s"
    unfolding e by (simp add: maskBuffer_def stopDrawing_frame)
qed


lemma pressed_eq:
  "pressed = (mounted (400, 300))\<lparr>isDrawing := True, lastPoint := Some (10, 10)\<rparr>"
  by (simp add: pressed_def startDrawing_def getCoordinates_def mounted_def newCanvas_def)

lemma stroked_eq:
  "stroked = (mounted (400, 300))
     \<lparr>isDrawing := True, lastPoint := Some (20, 25),
      drawingCanvas := Some ((newCanvas 0 0)
        \<lparr>strokeStyle := ''#FFFFFF'', lineWidth := 40, lineCap := ''round'', lineJoin := ''round'',
         bitmap := [Segment ''#FFFFFF'' 40 ''round'' ''round'' (10, 10) (20, 25)]\<rparr>)\<rparr>"
  by (simp add: stroked_def pressed_eq draw_def getCoordinates_def mounted_def newCanvas_def
        whiteBrush_def setLineWidth_def strokeLine_def)

theorem mask_buffer_mutation_witness:
  "maskBuffer (step pngDataURL whiteBrush (MouseMove 20 25) pressed) \<noteq> maskBuffer pressed
   \<and> isDrawing pressed
   \<and> isDrawing (step pngDataURL whiteBrush (MouseMove 20 25) pressed)
   \<and> isDrawing (step pngDataURL whiteBrush (MouseDown 10 10) (mounted (400, 300)))
       \<noteq> isDrawing (mounted (400, 300))
   \<and> reported (step pngDataURL whiteBrush MouseUp stroked) = [''data:image/png;base64,iVBORw0KGgo='']
   \<and> \<not> isDrawing (step pngDataURL whiteBrush MouseUp stroked)
   \<and> maskBuffer (step pngDataURL whiteBrush MouseUp stroked) = maskBuffer stroked"
proof -
  have e1: "step pngDataURL whiteBrush (MouseMove 20 25) pressed = stroked"
    by (simp only: stroked_def)
  have e2: "step pngDataURL whiteBrush (MouseDown 10 10) (mounted (400, 300)) = pressed"
    by (simp only: pressed_def)
  have "maskBuffer stroked \<noteq> maskBuffer pressed"
    by (simp add: stroked_eq pressed_eq maskBuffer_def mounted_def newCanvas_def)
  then have ch: "maskBuffer (step pngDataURL whiteBrush (MouseMove 20 25) pressed)
                   \<noteq> maskBuffer pressed"
    unfolding e1 .
  have "isDrawing pressed \<noteq> isDrawing (mounted (400, 300))"
    by (simp add: pressed_eq mounted_def)
  then have dn: "isDrawing (step pngDataURL whiteBrush (MouseDown 10 10) (mounted (400, 300)))
              \<noteq> isDrawing (mounted (400, 300))"
    unfolding e2 .
  have up: "(MouseUp = MouseUp \<or> MouseUp = MouseLeave) \<and> isDrawing stroked
              \<and> drawingCanvas stroked = Some ((newCanvas 0 0)
        \<lparr>strokeStyle := ''#FFFFFF'', lineWidth := 40, lineCap := ''round'', lineJoin := ''round'',
         bitmap := [Segment ''#FFFFFF'' 40 ''round'' ''round'' (10, 10) (20, 25)]\<rparr>)"
    by (simp add: stroked_eq)
  have rp: "reported stroked = []"
    by (simp add: stroked_eq mounted_def)
  note m1 = mask_buffer_mutation [where t = pngDataURL and p = whiteBrush
      and ev = "MouseMove 20 25" and s = pressed]
  note m2 = mask_buffer_mutation [where t = pngDataURL and p = whiteBrush
      and ev = MouseUp and s = stroked and c = "(newCanvas 0 0)
        \<lparr>strokeStyle := ''#FFFFFF'', lineWidth := 40, lineCap := ''round'', lineJoin := ''round'',
         bitmap := [Segment ''#FFFFFF'' 40 ''round'' ''round'' (10, 10) (20, 25)]\<rparr>"]
  have "isDrawing pressed \<and> isDrawing (step pngDataURL whiteBrush (MouseMove 20 25) pressed)"
    using m1 ch by blast
  moreover have "reported (step pngDataURL whiteBrush MouseUp stroked)
                   = reported stroked @ [pngDataURL ((newCanvas 0 0)
        \<lparr>strokeStyle := ''#FFFFFF'', lineWidth := 40, lineCap := ''round'', lineJoin := ''round'',
         bitmap := [Segment ''#FFFFFF'' 40 ''round'' ''round'' (10, 10) (20, 25)]\<rparr>)]
     \<and> \<not> isDrawing (step pngDataURL whiteBrush MouseUp stroked)
     \<and> maskBuffer (step pngDataURL whiteBrush MouseUp stroked) = maskBuffer stroked"
    using m2 up by blast
  ultimately show ?thesis using ch dn rp by (simp only: pngDataURL_def append_Nil simp_thms)
qed

lemma afterStroke_eq:
  "afterStroke = \<lparr>isDrawing = False, lastPoint = None, dimensions = (Num 0, Num 0),
      container = Some (400, 300), imageCanvas = Some (newCanvas 0 0),
      drawingCanvas = Some ((newCanvas 0 0)
        \<lparr>strokeStyle := ''#FFFFFF'', lineWidth := 40, lineCap := ''round'', lineJoin := ''round'',
         bitmap := [Segment ''#FFFFFF'' 40 ''round'' ''round'' (10, 10) (20, 25)]\<rparr>),
      reported = [''data:image/png;base64,iVBORw0KGgo='']\<rparr>"
  by (simp add: afterStroke_def mounted_def newCanvas_def whiteBrush_def pngDataURL_def
        startDrawing_def getCoordinates_def draw_def setLineWidth_def strokeLine_def
        stopDrawing_def)

text \<open>
  The claim C1 as stated fails: after a stroke has ended (no button held, isDrawing
  reset) a run of the clearCounter effect with a positive counter empties the mask
  buffer.
\<close>

theorem mask_cleared_while_idle_counterexample:
  "\<not> isDrawing afterStroke
   \<and> maskBuffer afterStroke = Some [Segment ''#FFFFFF'' 40 ''round'' ''round'' (10, 10) (20, 25)]
   \<and> maskBuffer (step pngDataURL (whiteBrush\<lparr>clearCounter := 1\<rparr>) ClearCounterChanged afterStroke)
       = Some []
   \<and> \<not> isDrawing (step pngDataURL (whiteBrush\<lparr>clearCounter := 1\<rparr>) ClearCounterChanged afterStroke)"
  by (simp add: afterStroke_eq maskBuffer_def clearCounterEffect_def clearCanvas_def
        newCanvas_def clearRectAll_def whiteBrush_def)

section \<open>The two layers\<close>

lemma layered_step: "layered s \<Longrightarrow> layered (step t p ev s)"
proof (cases ev)
  case (MouseDown cx cy)
  assume "layered s"
  then show ?thesis using MouseDown by (simp add: layered_def startDrawing_frame)
next
  case (MouseMove cx cy)
  assume "layered s"
  then show ?thesis using MouseMove
    by (auto simp: layered_def draw_def getCoordinates_def setLineWidth_def strokeLine_def
          Let_def split: option.splits)
next
  case MouseUp
  assume "layered s"
  then show ?thesis using MouseUp by (simp add: layered_def stopDrawing_frame)
next
  case MouseLeave
  assume "layered s"
  then show ?thesis using MouseLeave by (simp add: layered_def stopDrawing_frame)
next
  case ClearCounterChanged
  assume "layered s"
  then show ?thesis using ClearCounterChanged
    by (auto simp: layered_def clearCounterEffect_def clearCanvas_def clearRectAll_def
          split: option.splits)
next
  case (ImageLoaded img)
  assume "layered s"
  then show ?thesis using ImageLoaded
    by (auto simp: layered_def drawImage_def setWidth_def setHeight_def resetContext_def
          Let_def split: option.splits prod.splits)
qed

lemma layered_run: "layered s \<Longrightarrow> layered (run t evs s)"
proof (induction evs arbitrary: s)
  case Nil
  then show ?case by simp
next
  case (Cons pe evs)
  then show ?case by (cases pe) (simp add: layered_step)
qed

lemma drawImage_paints:
  assumes "container s = Some cont" "imageCanvas s = Some ic" "drawingCanvas s = Some dc" "has2d ic"
  shows "map_option bitmap (imageCanvas (drawImage img s))
           = Some [Picture img 0 0 (fst (displaySize cont img)) (snd (displaySize cont img))]"
    and "maskBuffer (drawImage img s) = Some []"
  using assms
  by (simp_all add: drawImage_def maskBuffer_def setWidth_def setHeight_def resetContext_def
        Let_def split: prod.splits)

text \<open>
  C5. The masking surface is two layers. Over every history of events the image canvas
  holds nothing but drawn images and the drawing canvas nothing but line segments with
  round caps and round joins; a pointer event never changes the image canvas; a mouse
  move while drawing adds to the drawing canvas exactly the segment from the last recorded
  point to the current point, with round cap and join, the configured brush colour and the
  configured (positive) brush size; the load of the image draws the image on the image
  canvas and leaves the drawing canvas empty.
\<close>

theorem two_layers:
  "(layered s \<longrightarrow> layered (run t evs s))
   \<and> (isPointerEvent ev \<longrightarrow> imageCanvas (step t p ev s) = imageCanvas s)
   \<and> (isDrawing s \<and> lastPoint s = Some lp \<and> drawingCanvas s = Some c \<and> has2d c
        \<and> 0 < brushSizeProp p \<longrightarrow>
        maskBuffer (step t p (MouseMove cx cy) s)
          = Some (bitmap c @ [Segment (brushColor p) (brushSizeProp p) ''round'' ''round''
                                lp (cx - rectLeft c, cy - rectTop c)])
        \<and> lastPoint (step t p (MouseMove cx cy) s) = Some (cx - rectLeft c, cy - rectTop c))
   \<and> (container s = Some cont \<and> imageCanvas s = Some ic \<and> drawingCanvas s = Some dc \<and> has2d ic
        \<longrightarrow> map_option bitmap (imageCanvas (step t p (ImageLoaded img) s))
              = Some [Picture img 0 0 (fst (displaySize cont img)) (snd (displaySize cont img))]
            \<and> maskBuffer (step t p (ImageLoaded img) s) = Some [])"
proof (intro conjI impI)
  assume "layered s"
  then show "layered (run t evs s)" by (rule layered_run)
next
  assume "isPointerEvent ev"
  then show "imageCanvas (step t p ev s) = imageCanvas s"
    by (cases ev) (simp_all add: startDrawing_frame draw_frame stopDrawing_frame)
next
  assume a: "isDrawing s \<and> lastPoint s = Some lp \<and> drawingCanvas s = Some c \<and> has2d c
        \<and> 0 < brushSizeProp p"
  then have "step t p (MouseMove cx cy) s
     = s\<lparr>drawingCanvas := Some (c\<lparr>strokeStyle := brushColor p, lineWidth := brushSizeProp p,
                                   lineCap := ''round'', lineJoin := ''round'',
                                   bitmap := bitmap c
                                     @ [Segment (brushColor p) (brushSizeProp p) ''round'' ''round''
                                          lp (cx - rectLeft c, cy - rectTop c)]\<rparr>),
          lastPoint := Some (cx - rectLeft c, cy - rectTop c)\<rparr>"
    by (simp add: draw_stroke)
  then show "maskBuffer (step t p (MouseMove cx cy) s)
          = Some (bitmap c @ [Segment (brushColor p) (brushSizeProp p) ''round'' ''round''
                                lp (cx - rectLeft c, cy - rectTop c)])"
    and "lastPoint (step t p (MouseMove cx cy) s) = Some (cx - rectLeft c, cy - rectTop c)"
    by (simp_all add: maskBuffer_def)
next
  assume a: "container s = Some cont \<and> imageCanvas s = Some ic \<and> drawingCanvas s = Some dc
               \<and> has2d ic"
  then show "map_option bitmap (imageCanvas (step t p (ImageLoaded img) s))
              = Some [Picture img 0 0 (fst (displaySize cont img)) (snd (displaySize cont img))]"
    and "maskBuffer (step t p (ImageLoaded img) s) = Some []"
    using drawImage_paints [of s cont ic dc img] by simp_all
qed


lemma displaySize_roomImage: "displaySize (400, 300) roomImage = (Num 400, Num 200)"
  by (simp add: displaySize_def roomImage_def)

theorem two_layers_witness:
  "layered (mounted (400, 300))
   \<and> layered (run pngDataURL
        [(whiteBrush, ImageLoaded roomImage), (whiteBrush, MouseDown 10 10),
         (whiteBrush, MouseMove 20 25), (whiteBrush, MouseUp)] (mounted (400, 300)))
   \<and> imageCanvas (step pngDataURL whiteBrush (MouseMove 20 25) pressed) = imageCanvas pressed
   \<and> maskBuffer (step pngDataURL whiteBrush (MouseMove 20 25) pressed)
       = Some [Segment ''#FFFFFF'' 40 ''round'' ''round'' (10, 10) (20, 25)]
   \<and> map_option bitmap
         (imageCanvas (step pngDataURL whiteBrush (ImageLoaded roomImage) (mounted (400, 300))))
       = Some [Picture roomImage 0 0 (Num 400) (Num 200)]
   \<and> maskBuffer (step pngDataURL whiteBrush (ImageLoaded roomImage) (mounted (400, 300))) = Some []"
proof -
  have l0: "layered (mounted (400, 300))"
    by (simp add: layered_def mounted_def newCanvas_def)
  have pe: "isPointerEvent (MouseMove 20 25)" by simp
  have dr: "isDrawing pressed \<and> lastPoint pressed = Some (10, 10)
            \<and> drawingCanvas pressed = Some (newCanvas 0 0) \<and> has2d (newCanvas 0 0)
            \<and> 0 < brushSizeProp whiteBrush"
    by (simp add: pressed_eq mounted_def newCanvas_def whiteBrush_def)
  have mt: "container (mounted (400, 300)) = Some (400, 300)
            \<and> imageCanvas (mounted (400, 300)) = Some (newCanvas 0 0)
            \<and> drawingCanvas (mounted (400, 300)) = Some (newCanvas 0 0) \<and> has2d (newCanvas 0 0)"
    by (simp add: mounted_def newCanvas_def)
  note w1 = two_layers [where s = "mounted (400, 300)" and t = pngDataURL
      and evs = "[(whiteBrush, ImageLoaded roomImage), (whiteBrush, MouseDown 10 10),
         (whiteBrush, MouseMove 20 25), (whiteBrush, MouseUp)]"
      and cont = "(400, 300)" and ic = "newCanvas 0 0" and dc = "newCanvas 0 0"
      and img = roomImage and p = whiteBrush]
  note w2 = two_layers [where s = pressed and t = pngDataURL and ev = "MouseMove 20 25"
      and p = whiteBrush and lp = "(10, 10)" and c = "newCanvas 0 0" and cx = 20 and cy = 25]
  have c1: "layered (run pngDataURL
        [(whiteBrush, ImageLoaded roomImage), (whiteBrush, MouseDown 10 10),
         (whiteBrush, MouseMove 20 25), (whiteBrush, MouseUp)] (mounted (400, 300)))"
    using w1 l0 by blast
  have c2: "imageCanvas (step pngDataURL whiteBrush (MouseMove 20 25) pressed) = imageCanvas pressed"
    using w2 pe by blast
  have c3: "maskBuffer (step pngDataURL whiteBrush (MouseMove 20 25) pressed)
       = Some (bitmap (newCanvas 0 0)
               @ [Segment (brushColor whiteBrush) (brushSizeProp whiteBrush) ''round'' ''round''
                    (10, 10) (20 - rectLeft (newCanvas 0 0), 25 - rectTop (newCanvas 0 0))])"
    using w2 dr by blast
  have c4: "map_option bitmap
         (imageCanvas (step pngDataURL whiteBrush (ImageLoaded roomImage) (mounted (400, 300))))
       = Some [Picture roomImage 0 0 (fst (displaySize (400, 300) roomImage))
                 (snd (displaySize (400, 300) roomImage))]
     \<and> maskBuffer (step pngDataURL whiteBrush (ImageLoaded roomImage) (mounted (400, 300)))
         = Some []"
    using w1 mt by blast
  have c3': "maskBuffer (step pngDataURL whiteBrush (MouseMove 20 25) pressed)
       = Some [Segment ''#FFFFFF'' 40 ''round'' ''round'' (10, 10) (20, 25)]"
    unfolding c3 by (simp add: newCanvas_def whiteBrush_def)
  from l0 c1 c2 c3' c4 show ?thesis
    by (simp only: displaySize_roomImage fst_conv snd_conv simp_thms)
qed

section \<open>The size of the canvases\<close>

text \<open>
  For an image of positive width and height the size computed by \<^verbatim>\<open>drawImage\<close> is
  finite, has the aspect ratio of the image and fits the container; both canvases are
  given the integer parts of it.
\<close>

lemma displaySize_positive:
  assumes "0 < imageWidth img" "0 < imageHeight img"
  shows "displaySize (cw, ch) img =
    (if real cw / (real (imageWidth img) / real (imageHeight img)) > real ch \<and> 0 < ch
     then (Num (real ch * (real (imageWidth img) / real (imageHeight img))), Num (real ch))
     else (Num (real cw), Num (real cw / (real (imageWidth img) / real (imageHeight img)))))"
  using assms by (simp add: displaySize_def Let_def)

lemma displaySize_aspect_fit:
  assumes "0 < imageWidth img" "0 < imageHeight img"
  shows "\<exists>w h. displaySize (cw, ch) img = (Num w, Num h)
           \<and> w * real (imageHeight img) = h * real (imageWidth img)
           \<and> 0 \<le> w \<and> 0 \<le> h \<and> w \<le> real cw \<and> (0 < ch \<longrightarrow> h \<le> real ch)"
proof (cases "real cw / (real (imageWidth img) / real (imageHeight img)) > real ch \<and> 0 < ch")
  case True
  let ?ar = "real (imageWidth img) / real (imageHeight img)"
  have ar: "0 < ?ar" using assms by simp
  from True have "real ch < real cw / ?ar" by blast
  then have lt: "real ch * ?ar < real cw"
    using pos_less_divide_eq [OF ar, of "real ch" "real cw"] by blast
  have eq: "real ch * ?ar * real (imageHeight img) = real ch * real (imageWidth img)"
    using assms by simp
  have "displaySize (cw, ch) img = (Num (real ch * ?ar), Num (real ch))"
    using True by (simp only: displaySize_positive [OF assms] if_True simp_thms)
  moreover have "0 \<le> real ch * ?ar" using ar by simp
  ultimately show ?thesis using lt eq by auto
next
  case False
  let ?ar = "real (imageWidth img) / real (imageHeight img)"
  have ar: "0 < ?ar" using assms by simp
  from False assms show ?thesis
    by (auto simp: displaySize_positive)
qed

lemma drawImage_buffer_size:
  assumes "container s = Some cont" "imageCanvas s = Some ic" "drawingCanvas s = Some dc" "has2d ic"
  shows "dimensions (drawImage img s) = displaySize cont img"
    and "map_option (\<lambda>c. (width c, height c)) (imageCanvas (drawImage img s))
           = Some (toUnsignedLong (fst (displaySize cont img)),
                   toUnsignedLong (snd (displaySize cont img)))"
    and "map_option (\<lambda>c. (width c, height c)) (drawingCanvas (drawImage img s))
           = Some (toUnsignedLong (fst (displaySize cont img)),
                   toUnsignedLong (snd (displaySize cont img)))"
  using assms
  by (simp_all add: drawImage_def setWidth_def setHeight_def resetContext_def
        Let_def split: prod.splits)

text \<open>
  C6 says that drawImage computes a display size that keeps the aspect ratio of the image
  and fits the container, and that the pixel buffers of both canvases are set to exactly
  this size, so that a pointer coordinate (clientX and clientY minus the bounding
  rectangle) maps one-to-one onto the pixel buffer. The code at a container of 401 by 300
  and an image of 200 by 100: the size on the screen is 401 by 200.5 while the pixel
  buffers of both canvases are 401 by 200. The pointer at 200.25 below the top of the
  canvas is inside the canvas on the screen, and getCoordinates gives it the coordinate
  200.25, which is outside the 200 rows of the pixel buffer.
\<close>

theorem drawImage_buffer_smaller_than_display:
  "dimensions (drawImage roomImage (mounted (401, 300))) = (Num 401, Num (401 / 2))
   \<and> map_option (\<lambda>c. (width c, height c))
         (drawingCanvas (drawImage roomImage (mounted (401, 300)))) = Some (401, 200)
   \<and> map_option (\<lambda>c. (width c, height c))
         (imageCanvas (drawImage roomImage (mounted (401, 300)))) = Some (401, 200)
   \<and> Num (real (200 :: nat)) \<noteq> Num (401 / 2)
   \<and> getCoordinates (10, 200.25) (drawImage roomImage (mounted (401, 300)))
       = Some (10, 200.25)
   \<and> (200.25 :: real) < 401 / 2 \<and> real (200 :: nat) < 200.25"
  by (simp add: drawImage_def mounted_def displaySize_def newCanvas_def setWidth_def setHeight_def
        resetContext_def toUnsignedLong_def Let_def roomImage_def getCoordinates_def)

end
